theory Spec2Isabelle
  imports Complex_Main "HOL-Library.Multiset"
begin

section \<open>Shared data\<close>

text \<open>
  JavaScript numbers are IEEE doubles. Finite values are modelled as the reals they denote,
  so every statement below is about the exact arithmetic the code approximates; rounding is
  outside the model. The decoded audio buffer is an external object of which the code reads
  \<open>duration\<close> and the samples of channel 0.
\<close>

record AudioBuffer =
  bufferDuration :: real
  channelData0 :: "real list"

text \<open>
  \<open>const duration = audioBuffer?.duration || 0\<close> in the player and
  \<open>audioBuffer?.duration ?? 0\<close> in the waveform: 0 when there is no buffer.
\<close>

definition duration :: "AudioBuffer option \<Rightarrow> real" where
  "duration audioBuffer = (case audioBuffer of None \<Rightarrow> 0 | Some b \<Rightarrow> bufferDuration b)"

section \<open>AudioPlayer: the playback clock controller\<close>

text \<open>
  Commands the component issues to the audio subsystem, in the order issued.
  \<open>Start n offset rate\<close> is \<open>createBufferSource\<close> followed by \<open>start(0, offset)\<close> on
  node \<open>n\<close> with \<open>playbackRate.value = rate\<close>; \<open>Stop n\<close> is \<open>stop()\<close> on node \<open>n\<close>
  (inside \<open>try/catch\<close>, so it never fails).
\<close>

datatype audio_cmd = Start nat real real | Stop nat

text \<open>
  The component's React state (\<open>isPlaying\<close>, \<open>currentTime\<close>, \<open>timeInput\<close>), its refs, and
  the part of the environment it drives: the log of audio commands, the values passed to
  \<open>onTimeUpdate\<close>, and the pending animation-frame requests.
  \<open>audioContextRef\<close> holds the context's \<open>currentTime\<close> once the context exists.
  \<open>playbackRateRef\<close> is assigned from the \<open>playbackRate\<close> state at every render, so one
  field stands for both.
\<close>

record player =
  isPlaying :: bool
  currentTime :: real
  timeInput :: string
  audioContextRef :: "real option"
  sourceRef :: "nat option"
  startTimeRef :: real
  pauseTimeRef :: real
  animFrameRef :: "nat option"
  isPlayingRef :: bool
  playbackRateRef :: real
  intentionalStopRef :: bool
  audio :: "audio_cmd list"
  nodeCount :: nat
  timeUpdates :: "real list"
  frames :: "nat list"
  frameCount :: nat

definition initial :: player where
  "initial = \<lparr> isPlaying = False, currentTime = 0, timeInput = [],
     audioContextRef = None, sourceRef = None, startTimeRef = 0, pauseTimeRef = 0,
     animFrameRef = None, isPlayingRef = False, playbackRateRef = 1,
     intentionalStopRef = False, audio = [], nodeCount = 0, timeUpdates = [],
     frames = [], frameCount = 0 \<rparr>"

text \<open>The hardware clock advances by \<open>dt\<close> seconds (an environment step, not code).\<close>

definition elapse :: "real \<Rightarrow> player \<Rightarrow> player" where
  "elapse dt s = s\<lparr>audioContextRef := map_option (\<lambda>c. c + dt) (audioContextRef s)\<rparr>"

text \<open>\<open>animFrameRef.current = requestAnimationFrame(updateTime)\<close>: handles are positive.\<close>

definition requestAnimationFrame :: "player \<Rightarrow> player" where
  "requestAnimationFrame s =
     (let k = Suc (frameCount s)
      in s\<lparr>animFrameRef := Some k, frames := frames s @ [k], frameCount := k\<rparr>)"

definition cancelAnimationFrame :: "nat \<Rightarrow> player \<Rightarrow> player" where
  "cancelAnimationFrame k s = s\<lparr>frames := removeAll k (frames s)\<rparr>"

definition onTimeUpdate :: "real \<Rightarrow> player \<Rightarrow> player" where
  "onTimeUpdate t s = s\<lparr>timeUpdates := timeUpdates s @ [t]\<rparr>"

definition updateTime :: "AudioBuffer option \<Rightarrow> player \<Rightarrow> player" where
  "updateTime audioBuffer s =
     (case audioContextRef s of
        None \<Rightarrow> s
      | Some now \<Rightarrow>
          if \<not> isPlayingRef s then s
          else
            let elapsed = (now - startTimeRef s) * playbackRateRef s;
                newTime = min (pauseTimeRef s + elapsed) (duration audioBuffer);
                s1 = onTimeUpdate newTime (s\<lparr>currentTime := newTime\<rparr>)
            in if newTime \<ge> duration audioBuffer - 1 / 100
               then s1\<lparr>isPlaying := False, isPlayingRef := False,
                       pauseTimeRef := 0, currentTime := 0\<rparr>
               else requestAnimationFrame s1)"

definition play :: "AudioBuffer option \<Rightarrow> player \<Rightarrow> player" where
  "play audioBuffer s =
     (if audioBuffer = None then s
      else
        let s1 = (if audioContextRef s = None then s\<lparr>audioContextRef := Some 0\<rparr> else s);
            s2 = (case sourceRef s1 of
                    None \<Rightarrow> s1
                  | Some n \<Rightarrow> s1\<lparr>intentionalStopRef := True, audio := audio s1 @ [Stop n]\<rparr>);
            source = nodeCount s2;
            s3 = s2\<lparr>audio := audio s2 @ [Start source (pauseTimeRef s2) (playbackRateRef s2)],
                    nodeCount := Suc source\<rparr>;
            s4 = s3\<lparr>startTimeRef := (case audioContextRef s3 of Some now \<Rightarrow> now | None \<Rightarrow> 0),
                    sourceRef := Some source, isPlayingRef := True, isPlaying := True\<rparr>
        in requestAnimationFrame s4)"

text \<open>The \<open>onended\<close> handler installed on every source node by \<open>play\<close>.\<close>

definition onended :: "player \<Rightarrow> player" where
  "onended s =
     (if intentionalStopRef s then s\<lparr>intentionalStopRef := False\<rparr>
      else s\<lparr>pauseTimeRef := 0, currentTime := 0, isPlaying := False, isPlayingRef := False\<rparr>)"

definition pause :: "AudioBuffer option \<Rightarrow> player \<Rightarrow> player" where
  "pause audioBuffer s =
     (case (sourceRef s, audioContextRef s) of
        (Some n, Some now) \<Rightarrow>
          let position = min (pauseTimeRef s + (now - startTimeRef s) * playbackRateRef s)
                             (duration audioBuffer);
              s1 = onTimeUpdate position (s\<lparr>pauseTimeRef := position, currentTime := position\<rparr>);
              s2 = s1\<lparr>intentionalStopRef := True, audio := audio s1 @ [Stop n],
                      isPlayingRef := False, isPlaying := False\<rparr>
          in (case animFrameRef s2 of Some k \<Rightarrow> cancelAnimationFrame k s2 | None \<Rightarrow> s2)
      | _ \<Rightarrow> s)"

definition togglePlayPause :: "AudioBuffer option \<Rightarrow> player \<Rightarrow> player" where
  "togglePlayPause audioBuffer s =
     (if isPlaying s then pause audioBuffer s else play audioBuffer s)"

text \<open>
  \<open>isPlaying\<close> read inside a handler is the value of the render the handler belongs to,
  that is the value in the state the handler starts from.
\<close>

definition skip :: "AudioBuffer option \<Rightarrow> real \<Rightarrow> player \<Rightarrow> player" where
  "skip audioBuffer seconds s =
     (let newTime = max 0 (min (duration audioBuffer) (pauseTimeRef s + seconds));
          s1 = onTimeUpdate newTime (s\<lparr>pauseTimeRef := newTime, currentTime := newTime\<rparr>)
      in if isPlaying s then play audioBuffer (pause audioBuffer s1) else s1)"

definition seekTo :: "AudioBuffer option \<Rightarrow> real \<Rightarrow> player \<Rightarrow> player" where
  "seekTo audioBuffer newTime s =
     (let t = max 0 (min (duration audioBuffer) newTime);
          s1 = onTimeUpdate t (s\<lparr>pauseTimeRef := t, currentTime := t\<rparr>);
          s2 = s1\<lparr>timeInput := []\<rparr>
      in if isPlaying s then play audioBuffer (pause audioBuffer s2) else s2)"

text \<open>
  The events the component reacts to. \<open>Frame\<close> is the browser running the oldest pending
  animation-frame callback (always \<open>updateTime\<close>); \<open>Ended\<close> is the \<open>ended\<close> notification
  of a source node: every node gets the same handler, which does not look at the node.
\<close>

definition frame :: "AudioBuffer option \<Rightarrow> player \<Rightarrow> player" where
  "frame audioBuffer s =
     (case frames s of [] \<Rightarrow> s | k # ks \<Rightarrow> updateTime audioBuffer (s\<lparr>frames := ks\<rparr>))"

datatype event = Play | Pause | Toggle | Skip real | SeekTo real | Frame | Ended nat | Elapse real

fun fire :: "AudioBuffer option \<Rightarrow> event \<Rightarrow> player \<Rightarrow> player" where
  "fire b Play s = play b s"
| "fire b Pause s = pause b s"
| "fire b Toggle s = togglePlayPause b s"
| "fire b (Skip seconds) s = skip b seconds s"
| "fire b (SeekTo t) s = seekTo b t s"
| "fire b Frame s = frame b s"
| "fire b (Ended n) s = onended s"
| "fire b (Elapse dt) s = elapse dt s"

fun run :: "AudioBuffer option \<Rightarrow> event list \<Rightarrow> player \<Rightarrow> player" where
  "run b [] s = s"
| "run b (e # es) s = run b es (fire b e s)"

text \<open>A stretch of playback: the clock advances by each \<open>dt\<close> in turn, a frame after each.\<close>

fun ticks :: "AudioBuffer option \<Rightarrow> real list \<Rightarrow> player \<Rightarrow> player" where
  "ticks b [] s = s"
| "ticks b (dt # dts) s = ticks b dts (frame b (elapse dt s))"

section \<open>AudioPlayer: the time text input\<close>

text \<open>
  A JavaScript number: NaN, the infinities, or a finite value. Strings are lists of 8-bit
  characters read as code units below 256.
\<close>

datatype number = NaN | Finite real | PosInfinity | NegInfinity

text \<open>
  The Number value of a real, as rounding to the nearest double decides it at the two ends
  of the range: from \<open>(2 - 1 / 2 ^ 53) * 2 ^ 1023\<close> on (halfway between the largest double
  and \<open>2 ^ 1024\<close>) the value is an infinity, and up to \<open>1 / 2 ^ 1075\<close> (halfway between 0
  and the smallest double) it is 0. Rounding inside the range is not modelled.
\<close>

definition overflowThreshold :: real where
  "overflowThreshold = (2 - 1 / 2 ^ 53) * 2 ^ 1023"

definition underflowThreshold :: real where
  "underflowThreshold = 1 / 2 ^ 1075"

definition numberOf :: "real \<Rightarrow> number" where
  "numberOf x =
     (if overflowThreshold \<le> x then PosInfinity
      else if x \<le> - overflowThreshold then NegInfinity
      else if \<bar>x\<bar> \<le> underflowThreshold then Finite 0
      else Finite x)"

definition isNaN :: "number \<Rightarrow> bool" where
  "isNaN x = (x = NaN)"

fun isInfinite :: "number \<Rightarrow> bool" where
  "isInfinite PosInfinity = True"
| "isInfinite NegInfinity = True"
| "isInfinite _ = False"

fun isNegative :: "number \<Rightarrow> bool" where
  "isNegative NegInfinity = True"
| "isNegative (Finite r) = (r < 0)"
| "isNegative _ = False"

text \<open>
  \<open>a * b\<close>, \<open>a + b\<close> and \<open>Math.max(a, b)\<close> on numbers. A product or sum of finite values
  can leave the range of doubles.
\<close>

fun num_mul :: "number \<Rightarrow> number \<Rightarrow> number" where
  "num_mul NaN _ = NaN"
| "num_mul _ NaN = NaN"
| "num_mul (Finite a) (Finite b) = numberOf (a * b)"
| "num_mul x y =
     (if x = Finite 0 \<or> y = Finite 0 then NaN
      else if isNegative x = isNegative y then PosInfinity else NegInfinity)"

fun num_add :: "number \<Rightarrow> number \<Rightarrow> number" where
  "num_add NaN _ = NaN"
| "num_add _ NaN = NaN"
| "num_add (Finite a) (Finite b) = numberOf (a + b)"
| "num_add PosInfinity NegInfinity = NaN"
| "num_add NegInfinity PosInfinity = NaN"
| "num_add PosInfinity _ = PosInfinity"
| "num_add _ PosInfinity = PosInfinity"
| "num_add NegInfinity _ = NegInfinity"
| "num_add _ NegInfinity = NegInfinity"

fun Math_max :: "number \<Rightarrow> number \<Rightarrow> number" where
  "Math_max NaN _ = NaN"
| "Math_max _ NaN = NaN"
| "Math_max PosInfinity _ = PosInfinity"
| "Math_max _ PosInfinity = PosInfinity"
| "Math_max NegInfinity y = y"
| "Math_max x NegInfinity = x"
| "Math_max (Finite a) (Finite b) = Finite (max a b)"

text \<open>White space and line terminators below code unit 256: TAB, LF, VT, FF, CR, SP, NBSP.\<close>

definition isWhiteSpace :: "char \<Rightarrow> bool" where
  "isWhiteSpace c = (of_char c \<in> {9, 10, 11, 12, 13, 32, 160 :: nat})"

definition isDigit :: "char \<Rightarrow> bool" where
  "isDigit c = (48 \<le> (of_char c :: nat) \<and> (of_char c :: nat) \<le> 57)"

definition digitsValue :: "string \<Rightarrow> nat" where
  "digitsValue ds = foldl (\<lambda>a c. 10 * a + (of_char c - 48)) 0 ds"

definition trimStart :: "string \<Rightarrow> string" where
  "trimStart s = dropWhile isWhiteSpace s"

definition trim :: "string \<Rightarrow> string" where
  "trim s = rev (dropWhile isWhiteSpace (rev (dropWhile isWhiteSpace s)))"

text \<open>\<open>s.split(sep)\<close> for a one-character separator.\<close>

fun split :: "char \<Rightarrow> string \<Rightarrow> string list" where
  "split sep [] = [[]]"
| "split sep (c # cs) =
     (if c = sep then [] # split sep cs
      else (case split sep cs of [] \<Rightarrow> [[c]] | p # ps \<Rightarrow> (c # p) # ps))"

text \<open>\<open>s.replace(a, b)\<close> with one-character strings: only the first occurrence.\<close>

fun replace :: "char \<Rightarrow> char \<Rightarrow> string \<Rightarrow> string" where
  "replace a b [] = []"
| "replace a b (c # cs) = (if c = a then b # cs else c # replace a b cs)"

text \<open>An optional sign in front of the rest of the string.\<close>

fun signOf :: "string \<Rightarrow> real \<times> string" where
  "signOf [] = (1, [])"
| "signOf (c # cs) =
     (if c = CHR ''-'' then (-1, cs) else if c = CHR ''+'' then (1, cs) else (1, c # cs))"

text \<open>
  \<open>parseInt(s, 10)\<close>: leading white space, an optional sign, then the longest run of
  decimal digits; NaN when that run is empty, otherwise the Number value of the signed
  integer, an infinity for some 309 digits and for all longer runs. (An engine may read
  digits after the 20th significant one as 0; that is rounding.)
\<close>

definition parseInt :: "string \<Rightarrow> number" where
  "parseInt s =
     (let (sign, r) = signOf (trimStart s);
          ds = takeWhile isDigit r
      in if ds = [] then NaN else numberOf (sign * real (digitsValue ds)))"

text \<open>
  The exponent part \<open>e\<close>/\<open>E\<close>, optional sign, digits; it counts only when at least one
  digit follows. The result is the power of ten to multiply by.
\<close>

definition exponentPart :: "string \<Rightarrow> real" where
  "exponentPart r =
     (case r of
        [] \<Rightarrow> 1
      | c # cs \<Rightarrow>
          if c = CHR ''e'' \<or> c = CHR ''E'' then
            (let (sign, r') = signOf cs;
                 ds = takeWhile isDigit r'
             in if ds = [] then 1
                else if sign < 0 then 1 / 10 ^ digitsValue ds else 10 ^ digitsValue ds)
          else 1)"

text \<open>
  \<open>parseFloat(s)\<close>: leading white space, then the longest prefix that is a decimal literal
  (optional sign, then \<open>Infinity\<close>, or digits with an optional fraction and exponent, or a
  fraction starting with the point); NaN when there is no such prefix, otherwise the Number
  value of the literal: \<open>1e400\<close> is \<open>Infinity\<close>, \<open>1e-400\<close> is 0.
\<close>

definition parseFloat :: "string \<Rightarrow> number" where
  "parseFloat s =
     (let (sign, r) = signOf (trimStart s)
      in if take 8 r = ''Infinity'' then (if sign < 0 then NegInfinity else PosInfinity)
         else
           let ip = takeWhile isDigit r;
               r1 = dropWhile isDigit r;
               hasPoint = (r1 \<noteq> [] \<and> hd r1 = CHR ''.'');
               fp = (if hasPoint then takeWhile isDigit (tl r1) else []);
               r2 = (if hasPoint then dropWhile isDigit (tl r1) else r1)
           in if ip = [] \<and> fp = [] then NaN
              else numberOf (sign *
                     (real (digitsValue ip) + real (digitsValue fp) / 10 ^ length fp) *
                     exponentPart r2))"

text \<open>\<open>parseTimeInput\<close>; \<open>None\<close> is \<open>null\<close>.\<close>

definition parseTimeInput :: "string \<Rightarrow> number option" where
  "parseTimeInput input =
     (let s = trim input
      in if s = [] then None
         else
           (case split (CHR '':'') s of
              [p0] \<Rightarrow>
                (let sec = parseFloat (replace (CHR '','') (CHR ''.'') p0)
                 in if isNaN sec then None else Some (Math_max (Finite 0) sec))
            | [p0, p1] \<Rightarrow>
                (let mins = parseInt p0;
                     secs = parseFloat (replace (CHR '','') (CHR ''.'') p1)
                 in if isNaN mins \<or> isNaN secs then None
                    else Some (Math_max (Finite 0) (num_add (num_mul mins (Finite 60)) secs)))
            | [p0, p1, p2] \<Rightarrow>
                (let hrs = parseInt p0;
                     mins = parseInt p1;
                     secs = parseFloat (replace (CHR '','') (CHR ''.'') p2)
                 in if isNaN hrs \<or> isNaN mins \<or> isNaN secs then None
                    else Some (Math_max (Finite 0)
                           (num_add (num_add (num_mul hrs (Finite 3600)) (num_mul mins (Finite 60)))
                                    secs)))
            | _ \<Rightarrow> None))"

section \<open>Waveform: geometry, click dispatch, downsampling, the cut-point list\<close>

record CutPoint =
  id' :: string
  time :: real

text \<open>
  What the component reads from its container element (\<open>containerRef.current\<close>, absent
  before mounting): the left edge of its bounding rectangle and its horizontal scroll.
\<close>

record container =
  rectLeft :: real
  scrollLeft :: real

record view =
  containerRef :: "container option"
  containerWidth :: real
  zoomLevel :: nat

definition WAVEFORM_HEIGHT :: real where
  "WAVEFORM_HEIGHT = 128"

definition canvasWidth :: "view \<Rightarrow> int" where
  "canvasWidth v = max 1 \<lfloor>containerWidth v * real (zoomLevel v)\<rfloor>"

definition getCanvasX :: "view \<Rightarrow> real \<Rightarrow> real" where
  "getCanvasX v clientX =
     (case containerRef v of
        None \<Rightarrow> 0
      | Some c \<Rightarrow> clientX - rectLeft c + scrollLeft c)"

definition clientXToTime :: "view \<Rightarrow> AudioBuffer option \<Rightarrow> real \<Rightarrow> real" where
  "clientXToTime v audioBuffer clientX =
     (if duration audioBuffer \<le> 0 then 0
      else
        let x = getCanvasX v clientX;
            t = (x / real_of_int (canvasWidth v)) * duration audioBuffer
        in max 0 (min (duration audioBuffer) t))"

definition timeToX :: "view \<Rightarrow> AudioBuffer option \<Rightarrow> real \<Rightarrow> real" where
  "timeToX v audioBuffer t =
     (if duration audioBuffer > 0 then (t / duration audioBuffer) * real_of_int (canvasWidth v)
      else 0)"

text \<open>The callbacks a click can invoke; \<open>None\<close> below is the early return without a buffer.\<close>

datatype callback = onRemoveCutPoint string | onAddCutPoint real

definition handleCanvasClick ::
  "view \<Rightarrow> AudioBuffer option \<Rightarrow> CutPoint list \<Rightarrow> real \<Rightarrow> callback option" where
  "handleCanvasClick v audioBuffer cutPoints clientX =
     (if audioBuffer = None then None
      else
        let t = clientXToTime v audioBuffer clientX;
            clickX = getCanvasX v clientX;
            clickThresholdPx = 10;
            clickedPoint = find (\<lambda>point. \<bar>timeToX v audioBuffer (time point) - clickX\<bar>
                                           < clickThresholdPx) cutPoints
        in (case clickedPoint of
              Some point \<Rightarrow> Some (onRemoveCutPoint (id' point))
            | None \<Rightarrow> Some (onAddCutPoint t)))"

text \<open>
  The cut-point list of the rendered output. \<open>cutPoints\<close> is the array object the parent
  passes as a prop; \<open>cutPoints.sort(cmp)\<close> sorts that very array and returns it, so
  rendering yields the array's new contents together with the rows shown (label number and
  point). \<open>Array.prototype.sort\<close> is the engine's; it is modelled by what the language
  guarantees for a consistent comparator: a stable sort, here ascending by \<open>time\<close>.
\<close>

definition renderCutPoints :: "CutPoint list \<Rightarrow> CutPoint list \<times> (nat \<times> CutPoint) list" where
  "renderCutPoints cutPoints =
     (if length cutPoints > 0
      then (let sorted = sort_key time cutPoints
            in (sorted, map (\<lambda>(index, point). (index + 1, point)) (enumerate 0 sorted)))
      else (cutPoints, []))"

text \<open>The inner loop of \<open>draw\<close>: minimum and maximum of one pixel column.\<close>

function scanColumn :: "real list \<Rightarrow> nat \<Rightarrow> nat \<Rightarrow> nat \<Rightarrow> real \<Rightarrow> real \<Rightarrow> real \<times> real" where
  "scanColumn data step i j mn mx =
     (if j < step then
        (let idx = i * step + j
         in if idx \<ge> length data then (mn, mx)
            else
              let datum = data ! idx;
                  mn' = (if datum < mn then datum else mn);
                  mx' = (if datum > mx then datum else mx)
              in scanColumn data step i (Suc j) mn' mx')
      else (mn, mx))"
  by pat_completeness auto
termination
  by (relation "measure (\<lambda>(data, step, i, j, mn, mx). step - j)") auto

datatype path_cmd = moveTo real real | lineTo real real

text \<open>The outer loop of \<open>draw\<close>: the path commands of columns \<open>i, i+1, ..., width-1\<close>.\<close>

function drawColumns :: "real list \<Rightarrow> nat \<Rightarrow> real \<Rightarrow> nat \<Rightarrow> nat \<Rightarrow> path_cmd list" where
  "drawColumns data step amp width i =
     (if i < width then
        (let (mn, mx) = scanColumn data step i 0 1 (-1);
             x = real i;
             y1 = (1 + mn) * amp;
             y2 = (1 + mx) * amp
         in (if i = 0 then moveTo x y1 else lineTo x y1) # lineTo x y2 #
            drawColumns data step amp width (Suc i))
      else [])"
  by pat_completeness auto
termination
  by (relation "measure (\<lambda>(data, step, amp, width, i). width - i)") auto

declare scanColumn.simps [simp del] drawColumns.simps [simp del]

definition stepOf :: "real list \<Rightarrow> nat \<Rightarrow> nat" where
  "stepOf data width = nat \<lceil>real (length data) / real width\<rceil>"

text \<open>
  The waveform path of \<open>draw\<close>; \<open>None\<close> is the early return (no buffer, or no width yet).
  The canvas and its 2D context are taken to exist.
\<close>

definition draw :: "view \<Rightarrow> AudioBuffer option \<Rightarrow> path_cmd list option" where
  "draw v audioBuffer =
     (case audioBuffer of
        None \<Rightarrow> None
      | Some b \<Rightarrow>
          if containerWidth v \<le> 0 then None
          else
            let width = nat (canvasWidth v);
                height = WAVEFORM_HEIGHT;
                data = channelData0 b;
                step = stepOf data width;
                amp = height / 2
            in Some (drawColumns data step amp width 0))"

section \<open>Properties of the playback clock controller\<close>

lemmas player_defs = play_def pause_def seekTo_def skip_def updateTime_def frame_def onended_def
  elapse_def requestAnimationFrame_def cancelAnimationFrame_def onTimeUpdate_def
  togglePlayPause_def duration_def initial_def Let_def

subsection \<open>What play and pause leave behind\<close>

lemma play_fields:
  assumes "b \<noteq> None" "audioContextRef s = Some c"
  shows "audioContextRef (play b s) = Some c" "startTimeRef (play b s) = c"
    "pauseTimeRef (play b s) = pauseTimeRef s" "playbackRateRef (play b s) = playbackRateRef s"
    "currentTime (play b s) = currentTime s" "isPlayingRef (play b s)" "isPlaying (play b s)"
    "frames (play b s) \<noteq> []" "sourceRef (play b s) = Some (nodeCount s)"
  using assms
  by (auto simp: play_def Let_def requestAnimationFrame_def split: option.splits)

lemma play_initial:
  assumes "b \<noteq> None"
  shows "audioContextRef (play b initial) = Some 0" "startTimeRef (play b initial) = 0"
    "pauseTimeRef (play b initial) = 0" "playbackRateRef (play b initial) = 1"
    "isPlayingRef (play b initial)" "frames (play b initial) \<noteq> []"
    "sourceRef (play b initial) = Some 0"
  using assms by (simp_all add: play_def Let_def requestAnimationFrame_def initial_def)

lemma pause_fields:
  assumes "sourceRef s = Some n" "audioContextRef s = Some c"
  shows "pauseTimeRef (pause b s) =
           min (pauseTimeRef s + (c - startTimeRef s) * playbackRateRef s) (duration b)"
    "currentTime (pause b s) = pauseTimeRef (pause b s)"
    "audioContextRef (pause b s) = Some c" "playbackRateRef (pause b s) = playbackRateRef s"
    "sourceRef (pause b s) = Some n" "\<not> isPlaying (pause b s)" "\<not> isPlayingRef (pause b s)"
    "intentionalStopRef (pause b s)"
    "last (timeUpdates (pause b s)) = pauseTimeRef (pause b s)"
  using assms
  by (simp_all add: pause_def Let_def onTimeUpdate_def cancelAnimationFrame_def split: option.splits)

subsection \<open>Seeking\<close>

lemma seekTo_not_playing:
  assumes "\<not> isPlaying s"
  shows "pauseTimeRef (seekTo b t s) = max 0 (min (duration b) t)"
    and "currentTime (seekTo b t s) = max 0 (min (duration b) t)"
    and "audio (seekTo b t s) = audio s"
  using assms by (simp_all add: seekTo_def Let_def onTimeUpdate_def)

lemma seekTo_playing:
  assumes "isPlaying s" "sourceRef s = Some n" "audioContextRef s = Some now" "b \<noteq> None"
  shows "pauseTimeRef (seekTo b t s) =
           min (max 0 (min (duration b) t) + (now - startTimeRef s) * playbackRateRef s) (duration b)"
    and "currentTime (seekTo b t s) = pauseTimeRef (seekTo b t s)"
proof -
  let ?c = "max 0 (min (duration b) t)"
  let ?s2 = "(onTimeUpdate ?c (s\<lparr>pauseTimeRef := ?c, currentTime := ?c\<rparr>))\<lparr>timeInput := []\<rparr>"
  have s2: "sourceRef ?s2 = Some n" "audioContextRef ?s2 = Some now" "pauseTimeRef ?s2 = ?c"
    "startTimeRef ?s2 = startTimeRef s" "playbackRateRef ?s2 = playbackRateRef s"
    using assms(2,3) by (simp_all add: onTimeUpdate_def)
  have eq: "seekTo b t s = play b (pause b ?s2)"
    using assms(1) by (simp add: seekTo_def Let_def)
  note pf = pause_fields [OF s2(1) s2(2), of b]
  note pl = play_fields [OF assms(4) pf(3)]
  show "pauseTimeRef (seekTo b t s) =
           min (?c + (now - startTimeRef s) * playbackRateRef s) (duration b)"
    unfolding eq pl(3) pf(1) s2 ..
  show "currentTime (seekTo b t s) = pauseTimeRef (seekTo b t s)"
    unfolding eq pl(3) pl(5) pf(2) ..
qed

text \<open>
  C1. \<open>seekTo(t)\<close> should leave the playback position at \<open>t\<close> clamped to
  \<open>[0, duration]\<close>, also while playing. The code stores and reports the clamped \<open>t\<close>, but
  the \<open>pause\<close> it then calls adds the time elapsed since the last start to the value just
  stored. With a 100 s buffer, playing from 0 for 10 s and seeking to 50 leaves the stored and
  displayed position at 60, reports 50 and then 60 to the observer, and restarts the output
  at offset 60.
\<close>

theorem seekTo_while_playing_overshoots:
  "isPlaying (run (Some \<lparr>bufferDuration = 100, channelData0 = []\<rparr>) [Play, Elapse 10] initial) \<and>
   pauseTimeRef (run (Some \<lparr>bufferDuration = 100, channelData0 = []\<rparr>)
       [Play, Elapse 10, SeekTo 50] initial) = 60 \<and>
   currentTime (run (Some \<lparr>bufferDuration = 100, channelData0 = []\<rparr>)
       [Play, Elapse 10, SeekTo 50] initial) = 60 \<and>
   timeUpdates (run (Some \<lparr>bufferDuration = 100, channelData0 = []\<rparr>)
       [Play, Elapse 10, SeekTo 50] initial) = [50, 60] \<and>
   audio (run (Some \<lparr>bufferDuration = 100, channelData0 = []\<rparr>)
       [Play, Elapse 10, SeekTo 50] initial) = [Start 0 0 1, Stop 0, Stop 0, Start 1 60 1]"
  by (simp add: player_defs)

subsection \<open>Position reporting\<close>

lemma frame_playing:
  assumes "audioContextRef s = Some c" "isPlayingRef s" "frames s \<noteq> []"
    and "pauseTimeRef s + (c - startTimeRef s) * playbackRateRef s < duration b - 1 / 100"
  shows "frame b s =
     requestAnimationFrame (onTimeUpdate (pauseTimeRef s + (c - startTimeRef s) * playbackRateRef s)
       (s\<lparr>frames := tl (frames s),
           currentTime := pauseTimeRef s + (c - startTimeRef s) * playbackRateRef s\<rparr>))"
proof -
  from assms(3) obtain k ks where ks: "frames s = k # ks" by (cases "frames s") auto
  have m: "min (pauseTimeRef s + (c - startTimeRef s) * playbackRateRef s) (duration b)
         = pauseTimeRef s + (c - startTimeRef s) * playbackRateRef s"
    using assms(4) by simp
  show ?thesis
    using assms(1,2,4) ks
    by (simp add: frame_def updateTime_def Let_def m onTimeUpdate_def)
qed

lemma ticks_playing:
  assumes "audioContextRef s = Some c" "isPlayingRef s" "frames s \<noteq> []"
    and "\<forall>dt \<in> set dts. 0 \<le> dt" "0 \<le> playbackRateRef s"
    and "pauseTimeRef s + (c + sum_list dts - startTimeRef s) * playbackRateRef s
           < duration b - 1 / 100"
  shows "audioContextRef (ticks b dts s) = Some (c + sum_list dts) \<and>
         isPlayingRef (ticks b dts s) \<and> frames (ticks b dts s) \<noteq> [] \<and>
         pauseTimeRef (ticks b dts s) = pauseTimeRef s \<and>
         startTimeRef (ticks b dts s) = startTimeRef s \<and>
         playbackRateRef (ticks b dts s) = playbackRateRef s \<and>
         sourceRef (ticks b dts s) = sourceRef s \<and>
         isPlaying (ticks b dts s) = isPlaying s \<and>
         audio (ticks b dts s) = audio s \<and>
         (dts \<noteq> [] \<longrightarrow>
            currentTime (ticks b dts s) =
              pauseTimeRef s + (c + sum_list dts - startTimeRef s) * playbackRateRef s \<and>
            timeUpdates (ticks b dts s) \<noteq> [] \<and>
            last (timeUpdates (ticks b dts s)) =
              pauseTimeRef s + (c + sum_list dts - startTimeRef s) * playbackRateRef s)"
  using assms
proof (induction dts arbitrary: s c)
  case Nil
  then show ?case by simp
next
  case (Cons dt dts)
  let ?e = "elapse dt s"
  let ?nt = "pauseTimeRef s + (c + dt - startTimeRef s) * playbackRateRef s"
  let ?s' = "frame b ?e"
  have rest: "0 \<le> sum_list dts" using Cons.prems(4) by (simp add: sum_list_nonneg)
  have "(c + dt - startTimeRef s) * playbackRateRef s
          \<le> (c + sum_list (dt # dts) - startTimeRef s) * playbackRateRef s"
    using rest Cons.prems(5) by (intro mult_right_mono) simp_all
  with Cons.prems(6) have below: "?nt < duration b - 1 / 100" by simp
  have e: "audioContextRef ?e = Some (c + dt)" "isPlayingRef ?e" "frames ?e \<noteq> []"
    "pauseTimeRef ?e = pauseTimeRef s" "startTimeRef ?e = startTimeRef s"
    "playbackRateRef ?e = playbackRateRef s"
    using Cons.prems(1-3) by (simp_all add: elapse_def)
  have fr: "?s' = requestAnimationFrame (onTimeUpdate ?nt (?e\<lparr>frames := tl (frames ?e), currentTime := ?nt\<rparr>))"
    using frame_playing [of ?e "c + dt" b] e below by simp
  have s': "audioContextRef ?s' = Some (c + dt)" "isPlayingRef ?s'" "frames ?s' \<noteq> []"
    "pauseTimeRef ?s' = pauseTimeRef s" "startTimeRef ?s' = startTimeRef s"
    "playbackRateRef ?s' = playbackRateRef s" "sourceRef ?s' = sourceRef s"
    "isPlaying ?s' = isPlaying s" "audio ?s' = audio s" "currentTime ?s' = ?nt"
    "timeUpdates ?s' \<noteq> []" "last (timeUpdates ?s') = ?nt"
    unfolding fr using e
    by (simp_all add: requestAnimationFrame_def onTimeUpdate_def Let_def elapse_def)
  have below': "pauseTimeRef ?s' + (c + dt + sum_list dts - startTimeRef ?s') * playbackRateRef ?s'
           < duration b - 1 / 100"
    using Cons.prems(6) s' by (simp add: algebra_simps)
  have IH: "audioContextRef (ticks b dts ?s') = Some (c + dt + sum_list dts) \<and>
         isPlayingRef (ticks b dts ?s') \<and> frames (ticks b dts ?s') \<noteq> [] \<and>
         pauseTimeRef (ticks b dts ?s') = pauseTimeRef ?s' \<and>
         startTimeRef (ticks b dts ?s') = startTimeRef ?s' \<and>
         playbackRateRef (ticks b dts ?s') = playbackRateRef ?s' \<and>
         sourceRef (ticks b dts ?s') = sourceRef ?s' \<and>
         isPlaying (ticks b dts ?s') = isPlaying ?s' \<and>
         audio (ticks b dts ?s') = audio ?s' \<and>
         (dts \<noteq> [] \<longrightarrow>
            currentTime (ticks b dts ?s') =
              pauseTimeRef ?s' + (c + dt + sum_list dts - startTimeRef ?s') * playbackRateRef ?s' \<and>
            timeUpdates (ticks b dts ?s') \<noteq> [] \<and>
            last (timeUpdates (ticks b dts ?s')) =
              pauseTimeRef ?s' + (c + dt + sum_list dts - startTimeRef ?s') * playbackRateRef ?s')"
    using Cons.IH [of ?s' "c + dt"] s'(1-3) Cons.prems(4,5) s'(6) below' by simp
  show ?case
  proof (cases "dts = []")
    case True
    then show ?thesis using s' by simp
  next
    case False
    then show ?thesis using IH s' by (simp add: algebra_simps)
  qed
qed


text \<open>
  C2. While playing, every callback reports \<open>min (stored + elapsed * rate) duration\<close>, computed
  from the clock reading and the reference timestamp, and before the end of the track it
  shows that value and changes neither the stored position nor the reference timestamp:
  nothing is accumulated from frame to frame. Hence the scenario of the specification,
  wherever the frames fall: play from 0 at rate 1; frames at any instants, the last one any
  time \<open>e1\<close> before the pause, two seconds in all; pause, which reads the clock itself and
  stores and shows 2; any gap; play again; frames at any instants and a last stretch \<open>e2\<close>,
  one second in all. A frame then shows 3, and a pause then stores 3. The buffer must be
  longer than 3.01 s, so that the end of the track is not reached.
\<close>

theorem position_from_clock_delta:
  assumes buf: "b = Some buf" "3 + 1 / 100 < bufferDuration buf"
    and dts1: "\<forall>dt \<in> set dts1. 0 \<le> dt" "0 \<le> e1" "sum_list dts1 + e1 = 2"
    and dts2: "\<forall>dt \<in> set dts2. 0 \<le> dt" "0 \<le> e2" "sum_list dts2 + e2 = 1"
  shows "(\<forall>s now. audioContextRef s = Some now \<and> isPlayingRef s \<longrightarrow>
            last (timeUpdates (updateTime b s)) =
              min (pauseTimeRef s + (now - startTimeRef s) * playbackRateRef s) (duration b)) \<and>
         (\<forall>s now. audioContextRef s = Some now \<and> isPlayingRef s \<and>
            min (pauseTimeRef s + (now - startTimeRef s) * playbackRateRef s) (duration b)
              < duration b - 1 / 100 \<longrightarrow>
            currentTime (updateTime b s) =
              min (pauseTimeRef s + (now - startTimeRef s) * playbackRateRef s) (duration b) \<and>
            pauseTimeRef (updateTime b s) = pauseTimeRef s \<and>
            startTimeRef (updateTime b s) = startTimeRef s) \<and>
         (dts1 \<noteq> [] \<longrightarrow> currentTime (ticks b dts1 (play b initial)) = sum_list dts1) \<and>
         pauseTimeRef (pause b (elapse e1 (ticks b dts1 (play b initial)))) = 2 \<and>
         currentTime (pause b (elapse e1 (ticks b dts1 (play b initial)))) = 2 \<and>
         last (timeUpdates (pause b (elapse e1 (ticks b dts1 (play b initial))))) = 2 \<and>
         currentTime (elapse gap (pause b (elapse e1 (ticks b dts1 (play b initial))))) = 2 \<and>
         currentTime (frame b (elapse e2 (ticks b dts2 (play b
           (elapse gap (pause b (elapse e1 (ticks b dts1 (play b initial))))))))) = 3 \<and>
         last (timeUpdates (frame b (elapse e2 (ticks b dts2 (play b
           (elapse gap (pause b (elapse e1 (ticks b dts1 (play b initial)))))))))) = 3 \<and>
         pauseTimeRef (pause b (elapse e2 (ticks b dts2 (play b
           (elapse gap (pause b (elapse e1 (ticks b dts1 (play b initial))))))))) = 3 \<and>
         currentTime (pause b (elapse e2 (ticks b dts2 (play b
           (elapse gap (pause b (elapse e1 (ticks b dts1 (play b initial))))))))) = 3"
proof -
  have formula: "\<forall>s now. audioContextRef s = Some now \<and> isPlayingRef s \<longrightarrow>
            last (timeUpdates (updateTime b s)) =
              min (pauseTimeRef s + (now - startTimeRef s) * playbackRateRef s) (duration b)"
    by (simp add: updateTime_def Let_def onTimeUpdate_def requestAnimationFrame_def)
  have kept: "\<forall>s now. audioContextRef s = Some now \<and> isPlayingRef s \<and>
            min (pauseTimeRef s + (now - startTimeRef s) * playbackRateRef s) (duration b)
              < duration b - 1 / 100 \<longrightarrow>
            currentTime (updateTime b s) =
              min (pauseTimeRef s + (now - startTimeRef s) * playbackRateRef s) (duration b) \<and>
            pauseTimeRef (updateTime b s) = pauseTimeRef s \<and>
            startTimeRef (updateTime b s) = startTimeRef s"
  proof (intro allI impI, elim conjE)
    fix s :: player and now :: real
    assume a: "audioContextRef s = Some now" "isPlayingRef s"
      and "min (pauseTimeRef s + (now - startTimeRef s) * playbackRateRef s) (duration b)
              < duration b - 1 / 100"
    then have n: "\<not> duration b - 1 / 100
          \<le> min (pauseTimeRef s + (now - startTimeRef s) * playbackRateRef s) (duration b)"
      by (simp only: not_le)
    show "currentTime (updateTime b s) =
              min (pauseTimeRef s + (now - startTimeRef s) * playbackRateRef s) (duration b) \<and>
            pauseTimeRef (updateTime b s) = pauseTimeRef s \<and>
            startTimeRef (updateTime b s) = startTimeRef s"
      using a n
      by (simp only: updateTime_def Let_def option.case if_True if_False not_not)
         (simp add: onTimeUpdate_def requestAnimationFrame_def)
  qed
  have d: "duration b = bufferDuration buf" and bn: "b \<noteq> None"
    using buf by (simp_all add: duration_def)
  have n1: "0 \<le> sum_list dts1" using dts1(1) by (simp add: sum_list_nonneg)
  have n2: "0 \<le> sum_list dts2" using dts2(1) by (simp add: sum_list_nonneg)
  define s0 where "s0 = play b initial"
  define s1 where "s1 = ticks b dts1 s0"
  define s1' where "s1' = elapse e1 s1"
  define s2 where "s2 = pause b s1'"
  define s3 where "s3 = elapse gap s2"
  define s4 where "s4 = play b s3"
  define s5 where "s5 = ticks b dts2 s4"
  define s5' where "s5' = elapse e2 s5"
  note p0 = play_initial [OF bn, folded s0_def]
  have "pauseTimeRef s0 + (0 + sum_list dts1 - startTimeRef s0) * playbackRateRef s0
          < duration b - 1 / 100"
    using p0 dts1 buf(2) d by simp
  from ticks_playing [OF p0(1) p0(5) p0(6) dts1(1) _ this]
  have t1: "audioContextRef s1 = Some (sum_list dts1)" "pauseTimeRef s1 = 0" "startTimeRef s1 = 0"
    "playbackRateRef s1 = 1" "sourceRef s1 = Some 0"
    "dts1 \<noteq> [] \<longrightarrow> currentTime s1 = sum_list dts1"
    using p0 by (simp_all add: s1_def)
  have t1': "audioContextRef s1' = Some 2" "pauseTimeRef s1' = 0" "startTimeRef s1' = 0"
    "playbackRateRef s1' = 1" "sourceRef s1' = Some 0"
    using t1 dts1(3) by (simp_all add: s1'_def elapse_def)
  have pos: "pauseTimeRef s2 = 2"
    using pause_fields(1) [OF t1'(5) t1'(1), of b] t1' d buf(2) by (simp add: s2_def)
  note p2 = pause_fields(2-5,9) [OF t1'(5) t1'(1), of b, folded s2_def]
  have t3: "audioContextRef s3 = Some (2 + gap)" "pauseTimeRef s3 = 2" "playbackRateRef s3 = 1"
    "currentTime s3 = 2"
    using p2 pos t1' by (simp_all add: s3_def elapse_def)
  note p4 = play_fields [OF bn t3(1), folded s4_def]
  have "pauseTimeRef s4 + (2 + gap + sum_list dts2 - startTimeRef s4) * playbackRateRef s4
          < duration b - 1 / 100"
    using p4 t3 dts2 buf(2) d by simp
  from ticks_playing [OF p4(1) p4(6) p4(8) dts2(1) _ this]
  have t5: "audioContextRef s5 = Some (2 + gap + sum_list dts2)" "isPlayingRef s5"
    "frames s5 \<noteq> []" "pauseTimeRef s5 = 2" "startTimeRef s5 = 2 + gap"
    "playbackRateRef s5 = 1" "sourceRef s5 = Some (nodeCount s3)"
    using p4 t3 by (simp_all add: s5_def)
  have t5': "audioContextRef s5' = Some (3 + gap)" "isPlayingRef s5'"
    "frames s5' \<noteq> []" "pauseTimeRef s5' = 2" "startTimeRef s5' = 2 + gap"
    "playbackRateRef s5' = 1" "sourceRef s5' = Some (nodeCount s3)"
    using t5 dts2(3) by (simp_all add: s5'_def elapse_def algebra_simps)
  have "pauseTimeRef s5' + (3 + gap - startTimeRef s5') * playbackRateRef s5' < duration b - 1 / 100"
    using t5' buf(2) d by simp
  from frame_playing [OF t5'(1) t5'(2) t5'(3) this]
  have f: "currentTime (frame b s5') = 3" "last (timeUpdates (frame b s5')) = 3"
    using t5' by (simp_all add: requestAnimationFrame_def onTimeUpdate_def Let_def)
  have pos2: "pauseTimeRef (pause b s5') = 3"
    using pause_fields(1) [OF t5'(7) t5'(1), of b] t5' d buf(2) by simp
  note p6 = pause_fields(2) [OF t5'(7) t5'(1), of b]
  have scenario: "(dts1 \<noteq> [] \<longrightarrow> currentTime s1 = sum_list dts1) \<and>
      pauseTimeRef s2 = 2 \<and> currentTime s2 = 2 \<and> last (timeUpdates s2) = 2 \<and>
      currentTime s3 = 2 \<and> currentTime (frame b s5') = 3 \<and>
      last (timeUpdates (frame b s5')) = 3 \<and>
      pauseTimeRef (pause b s5') = 3 \<and> currentTime (pause b s5') = 3"
    using t1(6) pos p2(1) p2(5) t3(4) f pos2 p6 by simp
  show ?thesis
    using formula kept
      scenario [unfolded s5'_def s5_def s4_def s3_def s2_def s1'_def s1_def s0_def]
    by blast
qed

theorem position_from_clock_delta_witness:
  "pauseTimeRef (pause (Some \<lparr>bufferDuration = 100, channelData0 = []\<rparr>)
     (elapse 1 (ticks (Some \<lparr>bufferDuration = 100, channelData0 = []\<rparr>) [1]
        (play (Some \<lparr>bufferDuration = 100, channelData0 = []\<rparr>) initial)))) = 2 \<and>
   currentTime (ticks (Some \<lparr>bufferDuration = 100, channelData0 = []\<rparr>) [1]
        (play (Some \<lparr>bufferDuration = 100, channelData0 = []\<rparr>) initial)) = 1 \<and>
   audioContextRef (elapse 2 (play (Some \<lparr>bufferDuration = 100, channelData0 = []\<rparr>) initial)) = Some 2 \<and>
   isPlayingRef (elapse 2 (play (Some \<lparr>bufferDuration = 100, channelData0 = []\<rparr>) initial)) \<and>
   last (timeUpdates (updateTime (Some \<lparr>bufferDuration = 100, channelData0 = []\<rparr>)
     (elapse 2 (play (Some \<lparr>bufferDuration = 100, channelData0 = []\<rparr>) initial)))) = 2 \<and>
   pauseTimeRef (updateTime (Some \<lparr>bufferDuration = 100, channelData0 = []\<rparr>)
     (elapse 2 (play (Some \<lparr>bufferDuration = 100, channelData0 = []\<rparr>) initial))) = 0 \<and>
   (3 + 1 / 100 < bufferDuration \<lparr>bufferDuration = 100, channelData0 = []\<rparr>) \<and>
   sum_list [1 :: real] + 1 = 2 \<and> sum_list [1 / 4, 1 / 4 :: real] + 1 / 2 = 1 \<and>
   currentTime (frame (Some \<lparr>bufferDuration = 100, channelData0 = []\<rparr>)
     (elapse (1 / 2) (ticks (Some \<lparr>bufferDuration = 100, channelData0 = []\<rparr>) [1 / 4, 1 / 4]
       (play (Some \<lparr>bufferDuration = 100, channelData0 = []\<rparr>)
         (elapse 7 (pause (Some \<lparr>bufferDuration = 100, channelData0 = []\<rparr>)
           (elapse 1 (ticks (Some \<lparr>bufferDuration = 100, channelData0 = []\<rparr>) [1]
             (play (Some \<lparr>bufferDuration = 100, channelData0 = []\<rparr>) initial))))))))) = 3 \<and>
   pauseTimeRef (pause (Some \<lparr>bufferDuration = 100, channelData0 = []\<rparr>)
     (elapse (1 / 2) (ticks (Some \<lparr>bufferDuration = 100, channelData0 = []\<rparr>) [1 / 4, 1 / 4]
       (play (Some \<lparr>bufferDuration = 100, channelData0 = []\<rparr>)
         (elapse 7 (pause (Some \<lparr>bufferDuration = 100, channelData0 = []\<rparr>)
           (elapse 1 (ticks (Some \<lparr>bufferDuration = 100, channelData0 = []\<rparr>) [1]
             (play (Some \<lparr>bufferDuration = 100, channelData0 = []\<rparr>) initial))))))))) = 3"
proof -
  let ?buf = "\<lparr>bufferDuration = 100, channelData0 = []\<rparr>"
  let ?b = "Some ?buf"
  let ?s = "elapse 2 (play ?b initial)"
  have s: "audioContextRef ?s = Some 2" "isPlayingRef ?s" "pauseTimeRef ?s = 0"
    "startTimeRef ?s = 0" "playbackRateRef ?s = 1"
    by (simp_all add: play_def elapse_def requestAnimationFrame_def initial_def Let_def)
  have long: "3 + 1 / 100 < bufferDuration ?buf" by simp
  have d1: "\<forall>dt \<in> set [1 :: real]. 0 \<le> dt" "(0::real) \<le> 1" "sum_list [1 :: real] + 1 = 2"
    by simp_all
  have d2: "\<forall>dt \<in> set [1 / 4, 1 / 4 :: real]. 0 \<le> dt" "(0::real) \<le> 1 / 2"
    "sum_list [1 / 4, 1 / 4 :: real] + 1 / 2 = 1"
    by simp_all
  note c = position_from_clock_delta [OF refl long d1 d2, of 7]
  have below: "min (pauseTimeRef ?s + (2 - startTimeRef ?s) * playbackRateRef ?s) (duration ?b)
      < duration ?b - 1 / 100"
    unfolding s by (simp add: duration_def)
  from c s(1,2) have "last (timeUpdates (updateTime ?b ?s)) =
      min (pauseTimeRef ?s + (2 - startTimeRef ?s) * playbackRateRef ?s) (duration ?b)"
    by blast
  then have l: "last (timeUpdates (updateTime ?b ?s)) = 2"
    unfolding s by (simp add: duration_def)
  from c s(1,2) below have "pauseTimeRef (updateTime ?b ?s) = pauseTimeRef ?s"
    by blast
  then have k: "pauseTimeRef (updateTime ?b ?s) = 0" unfolding s .
  have ne: "[1 :: real] \<noteq> []" by simp
  from c ne have "currentTime (ticks ?b [1] (play ?b initial)) = sum_list [1]" by blast
  then have shown: "currentTime (ticks ?b [1] (play ?b initial)) = 1" by simp
  from c have paused: "pauseTimeRef (pause ?b (elapse 1 (ticks ?b [1] (play ?b initial)))) = 2"
    by blast
  from c have e: "currentTime (frame ?b (elapse (1 / 2) (ticks ?b [1 / 4, 1 / 4] (play ?b
      (elapse 7 (pause ?b (elapse 1 (ticks ?b [1] (play ?b initial))))))))) = 3"
    by blast
  from c have e': "pauseTimeRef (pause ?b (elapse (1 / 2) (ticks ?b [1 / 4, 1 / 4] (play ?b
      (elapse 7 (pause ?b (elapse 1 (ticks ?b [1] (play ?b initial))))))))) = 3"
    by blast
  from paused shown s(1,2) l k long d1(3) d2(3) e e' show ?thesis by (intro conjI)
qed

subsection \<open>Reaching the end of the track\<close>

text \<open>
  C4 (amended). When a callback computes a position of at least \<open>duration - 0.01\<close>, it
  reports that position to the observer, then sets the stored and the displayed position to
  0 and leaves the playing phase, and requests no further frame. It issues no command to
  the audio subsystem: the source node is not stopped and stays referenced.
\<close>

theorem updateTime_completion:
  assumes "audioContextRef s = Some now" "isPlayingRef s"
    and "duration b - 1 / 100
           \<le> min (pauseTimeRef s + (now - startTimeRef s) * playbackRateRef s) (duration b)"
  shows "updateTime b s =
           s\<lparr>currentTime := 0,
             timeUpdates := timeUpdates s @
               [min (pauseTimeRef s + (now - startTimeRef s) * playbackRateRef s) (duration b)],
             isPlaying := False, isPlayingRef := False, pauseTimeRef := 0\<rparr> \<and>
         pauseTimeRef (updateTime b s) = 0 \<and> currentTime (updateTime b s) = 0 \<and>
         \<not> isPlaying (updateTime b s) \<and> \<not> isPlayingRef (updateTime b s) \<and>
         frames (updateTime b s) = frames s \<and>
         audio (updateTime b s) = audio s \<and> sourceRef (updateTime b s) = sourceRef s"
  using assms by (simp add: updateTime_def Let_def onTimeUpdate_def)

theorem updateTime_completion_witness:
  "audioContextRef (run (Some \<lparr>bufferDuration = 100, channelData0 = []\<rparr>)
       [Play, Elapse (100 - 5 / 1000)] initial) = Some (100 - 5 / 1000) \<and>
   isPlayingRef (run (Some \<lparr>bufferDuration = 100, channelData0 = []\<rparr>)
       [Play, Elapse (100 - 5 / 1000)] initial) \<and>
   pauseTimeRef (updateTime (Some \<lparr>bufferDuration = 100, channelData0 = []\<rparr>)
     (run (Some \<lparr>bufferDuration = 100, channelData0 = []\<rparr>)
       [Play, Elapse (100 - 5 / 1000)] initial)) = 0 \<and>
   \<not> isPlaying (updateTime (Some \<lparr>bufferDuration = 100, channelData0 = []\<rparr>)
     (run (Some \<lparr>bufferDuration = 100, channelData0 = []\<rparr>)
       [Play, Elapse (100 - 5 / 1000)] initial))"
proof -
  have s: "audioContextRef (run (Some \<lparr>bufferDuration = 100, channelData0 = []\<rparr>)
       [Play, Elapse (100 - 5 / 1000)] initial) = Some (100 - 5 / 1000)"
    "isPlayingRef (run (Some \<lparr>bufferDuration = 100, channelData0 = []\<rparr>)
       [Play, Elapse (100 - 5 / 1000)] initial)"
    "pauseTimeRef (run (Some \<lparr>bufferDuration = 100, channelData0 = []\<rparr>)
       [Play, Elapse (100 - 5 / 1000)] initial) = 0"
    "startTimeRef (run (Some \<lparr>bufferDuration = 100, channelData0 = []\<rparr>)
       [Play, Elapse (100 - 5 / 1000)] initial) = 0"
    "playbackRateRef (run (Some \<lparr>bufferDuration = 100, channelData0 = []\<rparr>)
       [Play, Elapse (100 - 5 / 1000)] initial) = 1"
    by (simp_all add: play_def elapse_def requestAnimationFrame_def initial_def Let_def)
  have e: "duration (Some \<lparr>bufferDuration = 100, channelData0 = []\<rparr>) - 1 / 100
     \<le> min (pauseTimeRef (run (Some \<lparr>bufferDuration = 100, channelData0 = []\<rparr>)
                [Play, Elapse (100 - 5 / 1000)] initial) +
            (100 - 5 / 1000 - startTimeRef (run (Some \<lparr>bufferDuration = 100, channelData0 = []\<rparr>)
                [Play, Elapse (100 - 5 / 1000)] initial)) *
            playbackRateRef (run (Some \<lparr>bufferDuration = 100, channelData0 = []\<rparr>)
                [Play, Elapse (100 - 5 / 1000)] initial))
           (duration (Some \<lparr>bufferDuration = 100, channelData0 = []\<rparr>))"
    unfolding s by (simp add: duration_def)
  from updateTime_completion [OF s(1) s(2) e] s(1,2) show ?thesis by blast
qed

text \<open>
  Playing a 100 s buffer from 0 until the clock reads 99.995 and then running one frame: the
  only audio command ever issued is the start of node 0.
\<close>

theorem updateTime_at_end_counterexample:
  "audio (run (Some \<lparr>bufferDuration = 100, channelData0 = []\<rparr>)
       [Play, Elapse (100 - 5 / 1000), Frame] initial) = [Start 0 0 1] \<and>
   Stop 0 \<notin> set (audio (run (Some \<lparr>bufferDuration = 100, channelData0 = []\<rparr>)
       [Play, Elapse (100 - 5 / 1000), Frame] initial)) \<and>
   timeUpdates (run (Some \<lparr>bufferDuration = 100, channelData0 = []\<rparr>)
       [Play, Elapse (100 - 5 / 1000), Frame] initial) = [100 - 5 / 1000] \<and>
   \<not> isPlaying (run (Some \<lparr>bufferDuration = 100, channelData0 = []\<rparr>)
       [Play, Elapse (100 - 5 / 1000), Frame] initial) \<and>
   pauseTimeRef (run (Some \<lparr>bufferDuration = 100, channelData0 = []\<rparr>)
       [Play, Elapse (100 - 5 / 1000), Frame] initial) = 0"
  by (simp add: player_defs)

subsection \<open>Skipping\<close>

lemma requestAnimationFrame_timeInput:
  "requestAnimationFrame (s\<lparr>timeInput := x\<rparr>) = (requestAnimationFrame s)\<lparr>timeInput := x\<rparr>"
  by (simp add: requestAnimationFrame_def Let_def)

lemma play_timeInput: "play b (s\<lparr>timeInput := x\<rparr>) = (play b s)\<lparr>timeInput := x\<rparr>"
  by (cases "sourceRef s"; cases "audioContextRef s")
     (simp_all add: play_def Let_def requestAnimationFrame_def)

lemma pause_timeInput: "pause b (s\<lparr>timeInput := x\<rparr>) = (pause b s)\<lparr>timeInput := x\<rparr>"
  by (cases "sourceRef s"; cases "audioContextRef s"; cases "animFrameRef s")
     (simp_all add: pause_def Let_def onTimeUpdate_def cancelAnimationFrame_def)

lemma timeInput_play: "timeInput (play b s) = timeInput s"
  by (cases "sourceRef s"; cases "audioContextRef s")
     (simp_all add: play_def Let_def requestAnimationFrame_def)

lemma timeInput_pause: "timeInput (pause b s) = timeInput s"
  by (cases "sourceRef s"; cases "audioContextRef s"; cases "animFrameRef s")
     (simp_all add: pause_def Let_def onTimeUpdate_def cancelAnimationFrame_def)

text \<open>
  In every state \<open>skip\<close> is \<open>seekTo\<close> from the stored position, up to the time text
  input, which only \<open>seekTo\<close> clears.
\<close>

lemma skip_seekTo_stored:
  "skip b \<Delta> s = (seekTo b (pauseTimeRef s + \<Delta>) s)\<lparr>timeInput := timeInput s\<rparr>"
proof -
  define t where "t = max 0 (min (duration b) (pauseTimeRef s + \<Delta>))"
  define s1 where "s1 = onTimeUpdate t (s\<lparr>pauseTimeRef := t, currentTime := t\<rparr>)"
  define r where "r = play b (pause b s1)"
  have ti: "timeInput s = timeInput s1" by (simp add: s1_def onTimeUpdate_def)
  have tr: "timeInput s = timeInput r" by (simp add: r_def ti timeInput_play timeInput_pause)
  have "(play b (pause b (s1\<lparr>timeInput := []\<rparr>)))\<lparr>timeInput := timeInput s\<rparr>
          = r\<lparr>timeInput := timeInput s\<rparr>"
    by (simp add: pause_timeInput play_timeInput r_def)
  also have "\<dots> = r" unfolding tr by simp
  finally have playing: "(play b (pause b (s1\<lparr>timeInput := []\<rparr>)))\<lparr>timeInput := timeInput s\<rparr> = r" .
  have idle: "s1\<lparr>timeInput := []\<rparr>\<lparr>timeInput := timeInput s\<rparr> = s1"
    unfolding ti by simp
  have sk: "skip b \<Delta> s = (if isPlaying s then r else s1)"
    by (simp add: skip_def Let_def t_def s1_def r_def)
  have se: "seekTo b (pauseTimeRef s + \<Delta>) s =
      (if isPlaying s then play b (pause b (s1\<lparr>timeInput := []\<rparr>)) else s1\<lparr>timeInput := []\<rparr>)"
    by (simp add: seekTo_def Let_def t_def s1_def)
  show ?thesis
    unfolding sk se using playing idle by (cases "isPlaying s") simp_all
qed

text \<open>
  Whenever the controller is not playing, the displayed position is the stored one. This
  holds initially and is kept by every event.
\<close>

lemma play_position:
  "isPlaying (play b s) = isPlayingRef (play b s) \<and>
   (\<not> isPlaying (play b s) \<longrightarrow> currentTime (play b s) = pauseTimeRef (play b s))"
  if "isPlaying s = isPlayingRef s" "\<not> isPlaying s \<longrightarrow> currentTime s = pauseTimeRef s"
  using that by (auto simp: play_def Let_def requestAnimationFrame_def split: option.splits)

lemma pause_position:
  "isPlaying (pause b s) = isPlayingRef (pause b s) \<and>
   (\<not> isPlaying (pause b s) \<longrightarrow> currentTime (pause b s) = pauseTimeRef (pause b s))"
  if "isPlaying s = isPlayingRef s" "\<not> isPlaying s \<longrightarrow> currentTime s = pauseTimeRef s"
  using that
  by (auto simp: pause_def Let_def onTimeUpdate_def cancelAnimationFrame_def split: option.splits)

lemma updateTime_position:
  "isPlaying (updateTime b s) = isPlayingRef (updateTime b s) \<and>
   (\<not> isPlaying (updateTime b s) \<longrightarrow> currentTime (updateTime b s) = pauseTimeRef (updateTime b s))"
  if "isPlaying s = isPlayingRef s" "\<not> isPlaying s \<longrightarrow> currentTime s = pauseTimeRef s"
  using that
  by (auto simp: updateTime_def Let_def onTimeUpdate_def requestAnimationFrame_def split: option.splits)

lemma fire_position:
  assumes "isPlaying s = isPlayingRef s" "\<not> isPlaying s \<longrightarrow> currentTime s = pauseTimeRef s"
  shows "isPlaying (fire b e s) = isPlayingRef (fire b e s) \<and>
   (\<not> isPlaying (fire b e s) \<longrightarrow> currentTime (fire b e s) = pauseTimeRef (fire b e s))"
proof (cases e)
  case Play
  then show ?thesis using play_position [OF assms] by simp
next
  case Pause
  then show ?thesis using pause_position [OF assms] by simp
next
  case Toggle
  then show ?thesis using play_position [OF assms] pause_position [OF assms]
    by (simp add: togglePlayPause_def)
next
  case (Skip seconds)
  let ?t = "max 0 (min (duration b) (pauseTimeRef s + seconds))"
  let ?s1 = "onTimeUpdate ?t (s\<lparr>pauseTimeRef := ?t, currentTime := ?t\<rparr>)"
  have s1: "isPlaying ?s1 = isPlayingRef ?s1" "\<not> isPlaying ?s1 \<longrightarrow> currentTime ?s1 = pauseTimeRef ?s1"
    using assms(1) by (simp_all add: onTimeUpdate_def)
  note pp = pause_position [OF s1, of b]
  note pl = play_position [OF pp [THEN conjunct1] pp [THEN conjunct2], of b]
  show ?thesis using Skip s1 pl by (simp add: skip_def Let_def)
next
  case (SeekTo t)
  let ?t = "max 0 (min (duration b) t)"
  let ?s2 = "(onTimeUpdate ?t (s\<lparr>pauseTimeRef := ?t, currentTime := ?t\<rparr>))\<lparr>timeInput := []\<rparr>"
  have s2: "isPlaying ?s2 = isPlayingRef ?s2" "\<not> isPlaying ?s2 \<longrightarrow> currentTime ?s2 = pauseTimeRef ?s2"
    using assms(1) by (simp_all add: onTimeUpdate_def)
  note pp = pause_position [OF s2, of b]
  note pl = play_position [OF pp [THEN conjunct1] pp [THEN conjunct2], of b]
  show ?thesis using SeekTo s2 pl by (simp add: seekTo_def Let_def)
next
  case Frame
  show ?thesis
  proof (cases "frames s")
    case Nil
    with Frame assms show ?thesis by (simp add: frame_def)
  next
    case (Cons k ks)
    have f: "isPlaying (s\<lparr>frames := ks\<rparr>) = isPlayingRef (s\<lparr>frames := ks\<rparr>)"
      "\<not> isPlaying (s\<lparr>frames := ks\<rparr>) \<longrightarrow>
         currentTime (s\<lparr>frames := ks\<rparr>) = pauseTimeRef (s\<lparr>frames := ks\<rparr>)"
      using assms by simp_all
    from updateTime_position [OF f, of b] Frame Cons show ?thesis by (simp add: frame_def)
  qed
next
  case (Ended n)
  then show ?thesis using assms by (simp add: onended_def)
next
  case (Elapse dt)
  then show ?thesis using assms by (simp add: elapse_def)
qed

lemma run_position:
  assumes "isPlaying s = isPlayingRef s" "\<not> isPlaying s \<longrightarrow> currentTime s = pauseTimeRef s"
  shows "isPlaying (run b es s) = isPlayingRef (run b es s) \<and>
   (\<not> isPlaying (run b es s) \<longrightarrow> currentTime (run b es s) = pauseTimeRef (run b es s))"
  using assms
proof (induction es arbitrary: s)
  case Nil
  then show ?case by simp
next
  case (Cons e es)
  from fire_position [OF Cons.prems, of b e]
  have "isPlaying (fire b e s) = isPlayingRef (fire b e s)"
    "\<not> isPlaying (fire b e s) \<longrightarrow> currentTime (fire b e s) = pauseTimeRef (fire b e s)"
    by blast+
  from Cons.IH [OF this] show ?case by simp
qed

text \<open>
  In a state reached from the initial one in which the controller is not playing,
  \<open>skip(\<Delta>)\<close> is \<open>seekTo(position + \<Delta>)\<close> up to the time text input, and both leave the
  position at \<open>position + \<Delta>\<close> clamped to \<open>[0, duration]\<close>.
\<close>

lemma skip_is_seekTo_when_not_playing:
  assumes "s = run b es initial" "\<not> isPlaying s"
  shows "currentTime s = pauseTimeRef s \<and>
         skip b \<Delta> s = (seekTo b (currentTime s + \<Delta>) s)\<lparr>timeInput := timeInput s\<rparr> \<and>
         seekTo b (currentTime s + \<Delta>) s = (skip b \<Delta> s)\<lparr>timeInput := []\<rparr> \<and>
         pauseTimeRef (skip b \<Delta> s) = max 0 (min (duration b) (currentTime s + \<Delta>)) \<and>
         currentTime (skip b \<Delta> s) = max 0 (min (duration b) (currentTime s + \<Delta>))"
proof -
  have i: "isPlaying initial = isPlayingRef initial"
    "\<not> isPlaying initial \<longrightarrow> currentTime initial = pauseTimeRef initial"
    by (simp_all add: initial_def)
  from run_position [OF i, of b es] assms have c: "currentTime s = pauseTimeRef s" by simp
  have sk: "skip b \<Delta> s = (seekTo b (currentTime s + \<Delta>) s)\<lparr>timeInput := timeInput s\<rparr>"
    unfolding c by (rule skip_seekTo_stored)
  have se: "seekTo b (currentTime s + \<Delta>) s = (skip b \<Delta> s)\<lparr>timeInput := []\<rparr>"
    using assms(2) by (simp add: seekTo_def skip_def Let_def c)
  have v: "pauseTimeRef (skip b \<Delta> s) = max 0 (min (duration b) (currentTime s + \<Delta>))"
    "currentTime (skip b \<Delta> s) = max 0 (min (duration b) (currentTime s + \<Delta>))"
    using assms(2) by (simp_all add: skip_def Let_def c onTimeUpdate_def)
  from c sk se v show ?thesis by blast
qed

text \<open>
  C5. \<open>skip(\<Delta>)\<close> should be \<open>seekTo(position + \<Delta>)\<close> for the current position, also while
  playing. While playing the code does neither: \<open>skip\<close> adds \<open>\<Delta>\<close> to the stored position
  of the last start and clamps, \<open>seekTo\<close> stores the clamped target, and the \<open>pause\<close> each
  then calls adds the elapsed time to the value just stored. With a 100 s buffer, after
  playing from 0 for 10 s the position is 10. \<open>skip(5)\<close> ends at 15 and \<open>seekTo(10 + 5)\<close> at
  25; \<open>skip(-5)\<close> clamps \<open>0 - 5\<close> to 0, reports 0 and ends at 10, where it started, and
  \<open>seekTo(10 - 5)\<close> ends at 15.
\<close>

theorem skip_differs_from_seekTo_while_playing:
  "isPlaying (run (Some \<lparr>bufferDuration = 100, channelData0 = []\<rparr>) [Play, Elapse 10, Frame] initial) \<and>
   currentTime (run (Some \<lparr>bufferDuration = 100, channelData0 = []\<rparr>)
       [Play, Elapse 10, Frame] initial) = 10 \<and>
   pauseTimeRef (skip (Some \<lparr>bufferDuration = 100, channelData0 = []\<rparr>) 5
     (run (Some \<lparr>bufferDuration = 100, channelData0 = []\<rparr>) [Play, Elapse 10, Frame] initial)) = 15 \<and>
   pauseTimeRef (seekTo (Some \<lparr>bufferDuration = 100, channelData0 = []\<rparr>) (10 + 5)
     (run (Some \<lparr>bufferDuration = 100, channelData0 = []\<rparr>) [Play, Elapse 10, Frame] initial)) = 25 \<and>
   skip (Some \<lparr>bufferDuration = 100, channelData0 = []\<rparr>) 5
     (run (Some \<lparr>bufferDuration = 100, channelData0 = []\<rparr>) [Play, Elapse 10, Frame] initial)
   \<noteq> seekTo (Some \<lparr>bufferDuration = 100, channelData0 = []\<rparr>) (10 + 5)
     (run (Some \<lparr>bufferDuration = 100, channelData0 = []\<rparr>) [Play, Elapse 10, Frame] initial) \<and>
   pauseTimeRef (skip (Some \<lparr>bufferDuration = 100, channelData0 = []\<rparr>) (- 5)
     (run (Some \<lparr>bufferDuration = 100, channelData0 = []\<rparr>) [Play, Elapse 10, Frame] initial)) = 10 \<and>
   timeUpdates (skip (Some \<lparr>bufferDuration = 100, channelData0 = []\<rparr>) (- 5)
     (run (Some \<lparr>bufferDuration = 100, channelData0 = []\<rparr>) [Play, Elapse 10, Frame] initial))
     = [10, 0, 10] \<and>
   pauseTimeRef (seekTo (Some \<lparr>bufferDuration = 100, channelData0 = []\<rparr>) (10 - 5)
     (run (Some \<lparr>bufferDuration = 100, channelData0 = []\<rparr>) [Play, Elapse 10, Frame] initial)) = 15"
  by (simp add: player_defs)

subsection \<open>Completion notifications\<close>






section \<open>Properties of the time text input\<close>

lemmas parse_defs = parseTimeInput_def trim_def trimStart_def isWhiteSpace_def isDigit_def
  digitsValue_def parseInt_def parseFloat_def exponentPart_def isNaN_def
  numberOf_def overflowThreshold_def underflowThreshold_def

lemma Math_max_zero_not_negative: "\<not> isNegative (Math_max (Finite 0) x)"
  by (cases x) auto

lemma Math_max_zero_NaN: "Math_max (Finite 0) x = NaN \<longleftrightarrow> x = NaN"
  by (cases x) auto

lemma not_negative_cases:
  "\<not> isNegative v \<longleftrightarrow> v = NaN \<or> v = PosInfinity \<or> (\<exists>r\<ge>0. v = Finite r)"
  by (cases v) auto

lemma parseTimeInput_not_negative:
  assumes "parseTimeInput input = Some v"
  shows "\<not> isNegative v"
  using assms
  by (auto simp: parseTimeInput_def Let_def Math_max_zero_not_negative
      split: if_splits list.splits)

lemma parseTimeInput_one_part:
  assumes "parseTimeInput input = Some v" "length (split (CHR '':'') (trim input)) = 1"
  shows "v \<noteq> NaN"
  using assms
  by (auto simp: parseTimeInput_def Let_def Math_max_zero_NaN isNaN_def
      split: if_splits list.splits)

lemma split_nonempty: "split sep s \<noteq> []"
  by (induction s) (auto split: list.splits)

lemma parseTimeInput_None_aux:
  "parseTimeInput input = None \<longleftrightarrow>
     (let parts = split (CHR '':'') (trim input)
      in trim input = [] \<or> length parts > 3 \<or>
         isNaN (parseFloat (replace (CHR '','') (CHR ''.'') (last parts))) \<or>
         (\<exists>p \<in> set (butlast parts). isNaN (parseInt p)))"
  using split_nonempty [of "CHR '':''" "trim input"]
  by (auto simp: parseTimeInput_def Let_def split: list.splits)

text \<open>
  C3 (amended). \<open>parseTimeInput\<close> yields \<open>null\<close> for \<open>"invalid"\<close> and for the empty string,
  and in general exactly when the trimmed input is empty, has more than three
  colon-separated parts, or has a part without a numeric prefix (\<open>parseInt\<close> for the hour and
  minute parts, \<open>parseFloat\<close> after replacing the first comma by a point for the last part);
  whatever follows a numeric prefix is ignored. A negative value is not rejected: the total
  goes through \<open>Math.max(0, ...)\<close>, so a successful parse is never a negative number. It is
  a non-negative number or \<open>Infinity\<close>, or NaN; NaN does not come from a single part.
\<close>

theorem parseTimeInput_invalid_and_clamped:
  "parseTimeInput ''invalid'' = None \<and> parseTimeInput [] = None \<and>
   (\<forall>input. parseTimeInput input = None \<longleftrightarrow>
      (let parts = split (CHR '':'') (trim input)
       in trim input = [] \<or> length parts > 3 \<or>
          isNaN (parseFloat (replace (CHR '','') (CHR ''.'') (last parts))) \<or>
          (\<exists>p \<in> set (butlast parts). isNaN (parseInt p)))) \<and>
   (\<forall>input v. parseTimeInput input = Some v \<longrightarrow>
      \<not> isNegative v \<and> (v = NaN \<or> v = PosInfinity \<or> (\<exists>r\<ge>0. v = Finite r))) \<and>
   (\<forall>input v. parseTimeInput input = Some v \<and> length (split (CHR '':'') (trim input)) = 1 \<longrightarrow>
      v \<noteq> NaN)"
proof -
  have a: "parseTimeInput ''invalid'' = None" by (simp add: parse_defs)
  have b: "parseTimeInput [] = None" by (simp add: parse_defs)
  have c: "\<forall>input v. parseTimeInput input = Some v \<longrightarrow>
      \<not> isNegative v \<and> (v = NaN \<or> v = PosInfinity \<or> (\<exists>r\<ge>0. v = Finite r))"
    using parseTimeInput_not_negative not_negative_cases by blast
  have d: "\<forall>input v. parseTimeInput input = Some v \<and> length (split (CHR '':'') (trim input)) = 1 \<longrightarrow>
      v \<noteq> NaN"
    using parseTimeInput_one_part by blast
  from a b parseTimeInput_None_aux c d show ?thesis by blast
qed

theorem parseTimeInput_invalid_and_clamped_witness:
  "parseTimeInput ''1:02:03,5'' = Some (Finite (7447 / 2)) \<and>
   \<not> isNegative (Finite (7447 / 2)) \<and>
   parseTimeInput ''2,5'' = Some (Finite (5 / 2)) \<and>
   length (split (CHR '':'') (trim ''2,5'')) = 1 \<and> Finite (5 / 2) \<noteq> NaN \<and>
   isNaN (parseInt ''x'') \<and> ''x'' \<in> set (butlast (split (CHR '':'') (trim ''x:30''))) \<and>
   parseTimeInput ''x:30'' = None"
proof -
  have p: "parseTimeInput ''1:02:03,5'' = Some (Finite (7447 / 2))" by (simp add: parse_defs)
  have q: "parseTimeInput ''2,5'' = Some (Finite (5 / 2))"
    "length (split (CHR '':'') (trim ''2,5'')) = 1"
    by (simp_all add: parse_defs)
  have n: "isNaN (parseInt ''x'')" "''x'' \<in> set (butlast (split (CHR '':'') (trim ''x:30'')))"
    by (simp_all add: parse_defs)
  from parseTimeInput_invalid_and_clamped p
  have r1: "\<not> isNegative (Finite (7447 / 2))" by blast
  from parseTimeInput_invalid_and_clamped q
  have r2: "Finite (5 / 2) \<noteq> NaN" by blast
  from parseTimeInput_invalid_and_clamped n
  have r3: "parseTimeInput ''x:30'' = None" unfolding Let_def by blast
  from p r1 q r2 n r3 show ?thesis by (intro conjI)
qed

text \<open>Negative input is clamped, and text after a numeric prefix is ignored.\<close>

theorem parseTimeInput_negative_counterexample:
  "parseTimeInput ''-1:00'' = Some (Finite 0) \<and> parseTimeInput ''-1:00'' \<noteq> None \<and>
   parseTimeInput ''-5'' = Some (Finite 0) \<and> parseTimeInput ''1x:30'' = Some (Finite 90)"
  by (simp add: parse_defs)

text \<open>
  Values beyond the range of doubles: \<open>1e400\<close> is \<open>Infinity\<close> and \<open>1e-400\<close> is 0, and 309
  nines for the minutes against \<open>-Infinity\<close> for the seconds give \<open>Infinity * 60 + -Infinity\<close>,
  which is NaN and is returned as such.
\<close>

lemma parseTimeInput_out_of_range:
  "parseTimeInput ''1e400'' = Some PosInfinity \<and> parseTimeInput ''1e-400'' = Some (Finite 0) \<and>
   parseTimeInput ''999999999999999999999999999999999999999999999999999999999999999999999999999999999999999999999999999999999999999999999999999999999999999999999999999999999999999999999999999999999999999999999999999999999999999999999999999999999999999999999999999999999999999999999999999999999999999999999999999999999999999999999:-Infinity'' = Some NaN"
  by (simp add: parse_defs)

section \<open>Properties of the waveform\<close>

subsection \<open>Geometry\<close>

lemma canvasWidth_pos: "0 < canvasWidth v" "0 < real_of_int (canvasWidth v)"
  by (simp_all add: canvasWidth_def)

lemma clamp_lipschitz:
  fixes a b d :: real
  assumes "0 \<le> d"
  shows "\<bar>max 0 (min d a) - max 0 (min d b)\<bar> \<le> \<bar>a - b\<bar>"
  using assms by (auto simp: max_def min_def abs_if)

text \<open>
  C9. For a positive duration, \<open>timeToX(t) = (t / duration) * canvasWidth\<close>, and for \<open>t\<close> in
  \<open>[0, duration]\<close> the pointer position whose canvas x is \<open>timeToX(t)\<close> is mapped back to
  \<open>t\<close> by \<open>clientXToTime\<close> (the clamped \<open>(x / canvasWidth) * duration\<close>); a pointer within
  one pixel of \<open>timeToX(t)\<close> is mapped to within \<open>duration / canvasWidth\<close>, the time one pixel
  stands for, of \<open>t\<close>. The container element is mounted.
\<close>

theorem time_pixel_roundtrip:
  assumes "0 < duration b" "0 \<le> t" "t \<le> duration b" "containerRef v = Some c"
  shows "getCanvasX v (timeToX v b t + rectLeft c - scrollLeft c) = timeToX v b t \<and>
         timeToX v b t = (t / duration b) * real_of_int (canvasWidth v) \<and>
         clientXToTime v b (timeToX v b t + rectLeft c - scrollLeft c) = t \<and>
         (\<forall>clientX. \<bar>getCanvasX v clientX - timeToX v b t\<bar> \<le> 1 \<longrightarrow>
            \<bar>clientXToTime v b clientX - t\<bar> \<le> duration b / real_of_int (canvasWidth v))"
proof -
  let ?w = "real_of_int (canvasWidth v)"
  let ?d = "duration b"
  have w: "0 < ?w" by (rule canvasWidth_pos)
  have tx: "timeToX v b t = (t / ?d) * ?w" using assms(1) by (simp add: timeToX_def)
  have gx: "getCanvasX v (timeToX v b t + rectLeft c - scrollLeft c) = timeToX v b t"
    using assms(4) by (simp add: getCanvasX_def)
  have ct: "clientXToTime v b x = max 0 (min ?d ((getCanvasX v x / ?w) * ?d))" for x
    using assms(1) by (simp add: clientXToTime_def Let_def)
  have cancel: "((t / ?d) * ?w / ?w) * ?d = t" using w assms(1) by simp
  have "(timeToX v b t / ?w) * ?d = t" unfolding tx by (rule cancel)
  then have "clientXToTime v b (timeToX v b t + rectLeft c - scrollLeft c) = max 0 (min ?d t)"
    by (simp only: ct gx)
  then have rt: "clientXToTime v b (timeToX v b t + rectLeft c - scrollLeft c) = t"
    using assms(2,3) by simp
  have near: "\<bar>clientXToTime v b x - t\<bar> \<le> ?d / ?w"
    if "\<bar>getCanvasX v x - timeToX v b t\<bar> \<le> 1" for x
  proof -
    have t_clamped: "t = max 0 (min ?d t)" using assms(2,3) by simp
    have "\<bar>clientXToTime v b x - t\<bar>
            = \<bar>max 0 (min ?d ((getCanvasX v x / ?w) * ?d)) - max 0 (min ?d t)\<bar>"
      unfolding ct using t_clamped by simp
    also have "\<dots> \<le> \<bar>(getCanvasX v x / ?w) * ?d - t\<bar>"
      using assms(1) by (intro clamp_lipschitz) simp
    also have "(getCanvasX v x / ?w) * ?d - t = (getCanvasX v x - timeToX v b t) * (?d / ?w)"
      unfolding tx using w assms(1) by (simp add: field_simps)
    also have "\<bar>(getCanvasX v x - timeToX v b t) * (?d / ?w)\<bar>
            = \<bar>getCanvasX v x - timeToX v b t\<bar> * (?d / ?w)"
      using w assms(1) by (simp add: abs_mult)
    also have "\<dots> \<le> 1 * (?d / ?w)"
      using that w assms(1) by (intro mult_right_mono) simp_all
    finally show ?thesis by simp
  qed
  from gx tx rt near show ?thesis by blast
qed

theorem time_pixel_roundtrip_witness:
  "0 < duration (Some \<lparr>bufferDuration = 100, channelData0 = []\<rparr>) \<and>
   timeToX \<lparr>containerRef = Some \<lparr>rectLeft = 20, scrollLeft = 300\<rparr>, containerWidth = 500, zoomLevel = 2\<rparr>
     (Some \<lparr>bufferDuration = 100, channelData0 = []\<rparr>) 50 = 500 \<and>
   clientXToTime \<lparr>containerRef = Some \<lparr>rectLeft = 20, scrollLeft = 300\<rparr>, containerWidth = 500, zoomLevel = 2\<rparr>
     (Some \<lparr>bufferDuration = 100, channelData0 = []\<rparr>) 220 = 50 \<and>
   \<bar>getCanvasX \<lparr>containerRef = Some \<lparr>rectLeft = 20, scrollLeft = 300\<rparr>, containerWidth = 500, zoomLevel = 2\<rparr> 221
      - timeToX \<lparr>containerRef = Some \<lparr>rectLeft = 20, scrollLeft = 300\<rparr>, containerWidth = 500, zoomLevel = 2\<rparr>
          (Some \<lparr>bufferDuration = 100, channelData0 = []\<rparr>) 50\<bar> \<le> 1 \<and>
   \<bar>clientXToTime \<lparr>containerRef = Some \<lparr>rectLeft = 20, scrollLeft = 300\<rparr>, containerWidth = 500, zoomLevel = 2\<rparr>
     (Some \<lparr>bufferDuration = 100, channelData0 = []\<rparr>) 221 - 50\<bar> \<le> 100 / 1000"
  using time_pixel_roundtrip [of "Some \<lparr>bufferDuration = 100, channelData0 = []\<rparr>" 50
      "\<lparr>containerRef = Some \<lparr>rectLeft = 20, scrollLeft = 300\<rparr>, containerWidth = 500, zoomLevel = 2\<rparr>"
      "\<lparr>rectLeft = 20, scrollLeft = 300\<rparr>"]
  by (simp add: duration_def timeToX_def canvasWidth_def getCanvasX_def)

subsection \<open>The cut-point list\<close>

lemma map_snd_enumerate_rows:
  "map snd (map (\<lambda>(index, point). (Suc index, point)) (enumerate n xs)) = xs"
  by (induction xs arbitrary: n) simp_all

lemma map_fst_enumerate_rows:
  "map fst (map (\<lambda>(index, point). (Suc index, point)) (enumerate n xs))
     = [Suc n ..< Suc (n + length xs)]"
  by (induction xs arbitrary: n) (simp_all add: upt_conv_Cons del: upt_Suc)

lemma renderCutPoints_array: "fst (renderCutPoints cps) = sort_key time cps"
  by (auto simp: renderCutPoints_def Let_def)

lemma renderCutPoints_rows: "map snd (snd (renderCutPoints cps)) = sort_key time cps"
  by (auto simp: renderCutPoints_def Let_def map_snd_enumerate_rows simp del: map_map)

lemma renderCutPoints_labels: "map fst (snd (renderCutPoints cps)) = [1 ..< Suc (length cps)]"
  by (auto simp: renderCutPoints_def Let_def map_fst_enumerate_rows simp del: map_map upt_Suc)

text \<open>
  C10 (amended). Rendering the cut-point list sorts the cut-point array itself, in place:
  after a render the array passed by the parent holds the stable ascending sort by time of
  what it held before, and the rows shown, numbered from 1, are that array. The sorted array
  holds exactly the same cut points: it is a permutation, ids included, and points with
  equal times keep their relative order.
\<close>

theorem render_sorts_the_store:
  "fst (renderCutPoints cps) = sort_key time cps \<and>
   map snd (snd (renderCutPoints cps)) = fst (renderCutPoints cps) \<and>
   map fst (snd (renderCutPoints cps)) = [1 ..< Suc (length cps)] \<and>
   sorted (map time (fst (renderCutPoints cps))) \<and>
   mset (fst (renderCutPoints cps)) = mset cps \<and>
   mset (map id' (fst (renderCutPoints cps))) = mset (map id' cps) \<and>
   (\<forall>k. filter (\<lambda>p. time p = k) (fst (renderCutPoints cps)) = filter (\<lambda>p. time p = k) cps)"
proof -
  have "mset (map id' (sort_key time cps)) = mset (map id' cps)"
    by (simp only: mset_map mset_sort)
  then show ?thesis
    by (simp add: renderCutPoints_array renderCutPoints_rows renderCutPoints_labels
        sort_key_stable)
qed

text \<open>An array holding the point at 5 s before the point at 2 s is reordered by the render.\<close>

theorem render_mutates_counterexample:
  "fst (renderCutPoints [\<lparr>id' = ''b'', time = 5\<rparr>, \<lparr>id' = ''a'', time = 2\<rparr>])
     = [\<lparr>id' = ''a'', time = 2\<rparr>, \<lparr>id' = ''b'', time = 5\<rparr>] \<and>
   fst (renderCutPoints [\<lparr>id' = ''b'', time = 5\<rparr>, \<lparr>id' = ''a'', time = 2\<rparr>])
     \<noteq> [\<lparr>id' = ''b'', time = 5\<rparr>, \<lparr>id' = ''a'', time = 2\<rparr>]"
  by (simp add: renderCutPoints_def Let_def)

subsection \<open>Click dispatch\<close>

lemma find_sorted_least:
  assumes "sorted (map f xs)" "find P xs = Some p" "q \<in> set xs" "P q"
  shows "f p \<le> f q"
proof -
  from assms(2) obtain i where i: "i < length xs" "P (xs ! i)" "p = xs ! i" "\<forall>j<i. \<not> P (xs ! j)"
    by (auto simp: find_Some_iff)
  from assms(3) obtain k where k: "k < length xs" "q = xs ! k" by (auto simp: in_set_conv_nth)
  with assms(4) i(4) have ik: "i \<le> k" by (meson not_le_imp_less)
  with assms(1) k(1) have "map f xs ! i \<le> map f xs ! k" by (simp add: sorted_iff_nth_mono)
  with i k ik show ?thesis by simp
qed

text \<open>
  C7. A click on the canvas, handled on the cut-point array as the render has left it: if
  some cut point's \<open>timeToX(time)\<close> is less than 10 px from the click's canvas x, the handler
  calls \<open>onRemoveCutPoint\<close> with the id of the first such point among the rows shown, which
  has the least time of all such points; otherwise it calls \<open>onAddCutPoint\<close> with the time
  of the click position.
\<close>

theorem click_removes_first_shown_or_adds:
  fixes v :: view and b :: "AudioBuffer option" and cutPoints :: "CutPoint list" and clientX :: real
  defines "hit \<equiv> \<lambda>point. \<bar>timeToX v b (time point) - getCanvasX v clientX\<bar> < 10"
  defines "rendered \<equiv> fst (renderCutPoints cutPoints)"
  defines "shown \<equiv> map snd (snd (renderCutPoints cutPoints))"
  assumes "b \<noteq> None"
  shows "((\<exists>p \<in> set cutPoints. hit p) \<longrightarrow>
           (\<exists>p ys zs. handleCanvasClick v b rendered clientX = Some (onRemoveCutPoint (id' p)) \<and>
              p \<in> set cutPoints \<and> hit p \<and>
              shown = ys @ p # zs \<and> (\<forall>q \<in> set ys. \<not> hit q) \<and>
              (\<forall>q \<in> set cutPoints. hit q \<longrightarrow> time p \<le> time q))) \<and>
         ((\<forall>p \<in> set cutPoints. \<not> hit p) \<longrightarrow>
           handleCanvasClick v b rendered clientX = Some (onAddCutPoint (clientXToTime v b clientX)))"
proof -
  have r: "rendered = sort_key time cutPoints" "shown = sort_key time cutPoints"
    by (simp_all add: rendered_def shown_def renderCutPoints_array renderCutPoints_rows)
  have click: "handleCanvasClick v b rendered clientX =
      (case find hit rendered of
         Some point \<Rightarrow> Some (onRemoveCutPoint (id' point))
       | None \<Rightarrow> Some (onAddCutPoint (clientXToTime v b clientX)))"
    using assms(4) by (auto simp: handleCanvasClick_def Let_def hit_def)
  have none: "handleCanvasClick v b rendered clientX = Some (onAddCutPoint (clientXToTime v b clientX))"
    if "\<forall>p \<in> set cutPoints. \<not> hit p"
  proof -
    from that have "find hit rendered = None" unfolding find_None_iff r by auto
    then show ?thesis by (simp add: click)
  qed
  have some: "\<exists>p ys zs. handleCanvasClick v b rendered clientX = Some (onRemoveCutPoint (id' p)) \<and>
              p \<in> set cutPoints \<and> hit p \<and>
              shown = ys @ p # zs \<and> (\<forall>q \<in> set ys. \<not> hit q) \<and>
              (\<forall>q \<in> set cutPoints. hit q \<longrightarrow> time p \<le> time q)"
    if "\<exists>p \<in> set cutPoints. hit p"
  proof -
    from that have "find hit rendered \<noteq> None" unfolding find_None_iff r by auto
    then obtain p where p: "find hit rendered = Some p" by blast
    then obtain i where i: "i < length rendered" "hit (rendered ! i)" "p = rendered ! i"
      "\<forall>j<i. \<not> hit (rendered ! j)"
      by (auto simp: find_Some_iff)
    have split: "rendered = take i rendered @ p # drop (Suc i) rendered"
      using i(1,3) by (simp add: id_take_nth_drop)
    have before: "\<forall>q \<in> set (take i rendered). \<not> hit q"
      using i(1,4) by (auto simp: in_set_conv_nth)
    have mem: "p \<in> set cutPoints" using i(1,3) r(1) by (metis nth_mem set_sort)
    have least: "\<forall>q \<in> set cutPoints. hit q \<longrightarrow> time p \<le> time q"
    proof (intro ballI impI)
      fix q assume "q \<in> set cutPoints" "hit q"
      then show "time p \<le> time q"
        using find_sorted_least [of time rendered hit p q] p by (simp add: r)
    qed
    have "handleCanvasClick v b rendered clientX = Some (onRemoveCutPoint (id' p))"
      by (simp add: click p)
    with mem i(2,3) split before least show ?thesis
      unfolding r(2) r(1) [symmetric] by blast
  qed
  from none some show ?thesis by blast
qed

theorem click_removes_first_shown_or_adds_witness:
  "Some \<lparr>bufferDuration = 100, channelData0 = []\<rparr> \<noteq> None \<and>
   \<bar>timeToX \<lparr>containerRef = Some \<lparr>rectLeft = 0, scrollLeft = 0\<rparr>, containerWidth = 500, zoomLevel = 2\<rparr>
       (Some \<lparr>bufferDuration = 100, channelData0 = []\<rparr>) (time \<lparr>id' = ''b'', time = 505 / 10\<rparr>)
     - getCanvasX \<lparr>containerRef = Some \<lparr>rectLeft = 0, scrollLeft = 0\<rparr>, containerWidth = 500, zoomLevel = 2\<rparr> 503\<bar> < 10 \<and>
   handleCanvasClick \<lparr>containerRef = Some \<lparr>rectLeft = 0, scrollLeft = 0\<rparr>, containerWidth = 500, zoomLevel = 2\<rparr>
       (Some \<lparr>bufferDuration = 100, channelData0 = []\<rparr>)
       (fst (renderCutPoints [\<lparr>id' = ''b'', time = 505 / 10\<rparr>, \<lparr>id' = ''a'', time = 50\<rparr>])) 503
     = Some (onRemoveCutPoint ''a'') \<and>
   \<not> \<bar>timeToX \<lparr>containerRef = Some \<lparr>rectLeft = 0, scrollLeft = 0\<rparr>, containerWidth = 500, zoomLevel = 2\<rparr>
         (Some \<lparr>bufferDuration = 100, channelData0 = []\<rparr>) (time \<lparr>id' = ''b'', time = 505 / 10\<rparr>)
       - getCanvasX \<lparr>containerRef = Some \<lparr>rectLeft = 0, scrollLeft = 0\<rparr>, containerWidth = 500, zoomLevel = 2\<rparr> 553\<bar> < 10 \<and>
   \<not> \<bar>timeToX \<lparr>containerRef = Some \<lparr>rectLeft = 0, scrollLeft = 0\<rparr>, containerWidth = 500, zoomLevel = 2\<rparr>
         (Some \<lparr>bufferDuration = 100, channelData0 = []\<rparr>) (time \<lparr>id' = ''a'', time = 50\<rparr>)
       - getCanvasX \<lparr>containerRef = Some \<lparr>rectLeft = 0, scrollLeft = 0\<rparr>, containerWidth = 500, zoomLevel = 2\<rparr> 553\<bar> < 10 \<and>
   handleCanvasClick \<lparr>containerRef = Some \<lparr>rectLeft = 0, scrollLeft = 0\<rparr>, containerWidth = 500, zoomLevel = 2\<rparr>
       (Some \<lparr>bufferDuration = 100, channelData0 = []\<rparr>)
       (fst (renderCutPoints [\<lparr>id' = ''b'', time = 505 / 10\<rparr>, \<lparr>id' = ''a'', time = 50\<rparr>])) 553
     = Some (onAddCutPoint (553 / 10))"
proof -
  let ?v = "\<lparr>containerRef = Some \<lparr>rectLeft = 0, scrollLeft = 0\<rparr>, containerWidth = 500, zoomLevel = 2\<rparr>"
  let ?b = "Some \<lparr>bufferDuration = 100, channelData0 = []\<rparr>"
  let ?cps = "[\<lparr>id' = ''b'', time = 505 / 10\<rparr>, \<lparr>id' = ''a'', time = 50\<rparr>]"
  have b: "?b \<noteq> None" by simp
  have x: "timeToX ?v ?b t = t * 10" "getCanvasX ?v c = c" for t c
    by (simp_all add: timeToX_def duration_def canvasWidth_def getCanvasX_def)
  have t: "clientXToTime ?v ?b 553 = 553 / 10"
    by (simp add: clientXToTime_def duration_def canvasWidth_def getCanvasX_def)
  have hitb: "\<bar>timeToX ?v ?b (time \<lparr>id' = ''b'', time = 505 / 10\<rparr>) - getCanvasX ?v 503\<bar> < 10"
    unfolding x by simp
  have miss: "\<forall>p \<in> set ?cps. \<not> \<bar>timeToX ?v ?b (time p) - getCanvasX ?v 553\<bar> < 10"
    unfolding x by simp
  note c1 = click_removes_first_shown_or_adds [OF b, of ?cps ?v 503]
  note c2 = click_removes_first_shown_or_adds [OF b, of ?cps ?v 553]
  have "\<exists>p \<in> set ?cps. \<bar>timeToX ?v ?b (time p) - getCanvasX ?v 503\<bar> < 10"
    using hitb by (intro bexI [of _ "\<lparr>id' = ''b'', time = 505 / 10\<rparr>"]) simp_all
  with c1 obtain p where p: "handleCanvasClick ?v ?b (fst (renderCutPoints ?cps)) 503
       = Some (onRemoveCutPoint (id' p))" "p \<in> set ?cps"
     "\<forall>q \<in> set ?cps. \<bar>timeToX ?v ?b (time q) - getCanvasX ?v 503\<bar> < 10 \<longrightarrow> time p \<le> time q"
    by blast
  from p(3) have "time p \<le> 50" unfolding x by simp
  with p(2) have "id' p = ''a''" by auto
  with p(1) have r: "handleCanvasClick ?v ?b (fst (renderCutPoints ?cps)) 503 = Some (onRemoveCutPoint ''a'')"
    by simp
  from c2 miss have a: "handleCanvasClick ?v ?b (fst (renderCutPoints ?cps)) 553
       = Some (onAddCutPoint (553 / 10))"
    unfolding t by blast
  have missb: "\<not> \<bar>timeToX ?v ?b (time \<lparr>id' = ''b'', time = 505 / 10\<rparr>) - getCanvasX ?v 553\<bar> < 10"
    and missa: "\<not> \<bar>timeToX ?v ?b (time \<lparr>id' = ''a'', time = 50\<rparr>) - getCanvasX ?v 553\<bar> < 10"
    using miss by simp_all
  from b hitb r missb missa a show ?thesis by (intro conjI)
qed

subsection \<open>Downsampling\<close>

lemma scanColumn_fold:
  "scanColumn data step i j mn mx =
     (fold min (map ((!) data) [i * step + j ..< min (i * step + step) (length data)]) mn,
      fold max (map ((!) data) [i * step + j ..< min (i * step + step) (length data)]) mx)"
proof (induction data step i j mn mx rule: scanColumn.induct)
  case (1 data step i j mn mx)
  show ?case
  proof (cases "j < step \<and> i * step + j < length data")
    case True
    then have lt: "i * step + j < min (i * step + step) (length data)" by simp
    have shift: "i * step + Suc j = Suc (i * step + j)" by simp
    have mn: "(if data ! (i * step + j) < mn then data ! (i * step + j) else mn)
                = min (data ! (i * step + j)) mn" by (simp add: min_def)
    have mx: "(if mx < data ! (i * step + j) then data ! (i * step + j) else mx)
                = max (data ! (i * step + j)) mx" by (simp add: max_def)
    from True have "scanColumn data step i j mn mx =
        scanColumn data step i (Suc j) (min (data ! (i * step + j)) mn) (max (data ! (i * step + j)) mx)"
      by (subst scanColumn.simps) (simp add: Let_def mn mx)
    also have "\<dots> =
       (fold min (map ((!) data) [Suc (i * step + j) ..< min (i * step + step) (length data)])
            (min (data ! (i * step + j)) mn),
        fold max (map ((!) data) [Suc (i * step + j) ..< min (i * step + step) (length data)])
            (max (data ! (i * step + j)) mx))"
      using "1.IH" [OF _ refl _ refl refl refl] True by (simp add: mn mx)
    finally show ?thesis
      by (simp add: upt_conv_Cons [OF lt])
  next
    case False
    then have "[i * step + j ..< min (i * step + step) (length data)] = []" by auto
    with False show ?thesis by (subst scanColumn.simps) (auto simp: Let_def)
  qed
qed

lemma fold_min_Min: "fold min xs (a::real) = Min (insert a (set xs))"
  using Min.set_eq_fold [of a xs] by simp

lemma fold_max_Max: "fold max xs (a::real) = Max (insert a (set xs))"
  using Max.set_eq_fold [of a xs] by simp

lemma scanColumn_Min_Max:
  "scanColumn data step i 0 1 (-1) =
     (Min (insert 1 (set (map ((!) data) [i * step ..< min ((i + 1) * step) (length data)]))),
      Max (insert (-1) (set (map ((!) data) [i * step ..< min ((i + 1) * step) (length data)]))))"
  by (simp add: scanColumn_fold fold_min_Min fold_max_Max add.commute del: set_map)


lemma drawColumns_length:
  "length (drawColumns data step amp width i) = 2 * (width - i)"
proof (induction data step amp width i rule: drawColumns.induct)
  case (1 data step amp width i)
  show ?case
  proof (cases "i < width")
    case True
    obtain mn mx where sc: "scanColumn data step i 0 1 (-1) = (mn, mx)" by fastforce
    from True sc "1.IH" [OF True sc [symmetric] refl refl refl]
    show ?thesis by (subst drawColumns.simps) (simp add: Let_def)
  next
    case False
    then show ?thesis by (subst drawColumns.simps) simp
  qed
qed

lemma drawColumns_nth:
  assumes "i \<le> k" "k < width"
  shows "drawColumns data step amp width i ! (2 * (k - i)) =
           (if k = 0 then moveTo (real k) ((1 + fst (scanColumn data step k 0 1 (-1))) * amp)
            else lineTo (real k) ((1 + fst (scanColumn data step k 0 1 (-1))) * amp)) \<and>
         drawColumns data step amp width i ! (2 * (k - i) + 1) =
           lineTo (real k) ((1 + snd (scanColumn data step k 0 1 (-1))) * amp)"
  using assms
proof (induction data step amp width i rule: drawColumns.induct)
  case (1 data step amp width i)
  from "1.prems" have iw: "i < width" by simp
  obtain mn mx where sc: "scanColumn data step i 0 1 (-1) = (mn, mx)" by fastforce
  have unfold: "drawColumns data step amp width i =
      (if i = 0 then moveTo (real i) ((1 + mn) * amp) else lineTo (real i) ((1 + mn) * amp)) #
      lineTo (real i) ((1 + mx) * amp) # drawColumns data step amp width (Suc i)"
    using iw sc by (subst drawColumns.simps) (simp add: Let_def)
  show ?case
  proof (cases "k = i")
    case True
    have fs: "fst (scanColumn data step i 0 1 (-1)) = mn" "snd (scanColumn data step i 0 1 (-1)) = mx"
      using sc by simp_all
    show ?thesis unfolding True unfold fs by simp
  next
    case False
    with "1.prems" have le: "Suc i \<le> k" by simp
    then have idx: "2 * (k - i) = Suc (Suc (2 * (k - Suc i)))" by simp
    from "1.IH" [OF iw refl sc [symmetric] refl refl refl le "1.prems"(2)] le
    show ?thesis by (simp add: unfold idx)
  qed
qed

lemma Min_insert_one:
  assumes "xs \<noteq> []" "\<forall>x \<in> set xs. x \<le> (1::real)"
  shows "Min (insert 1 (set xs)) = Min (set xs)"
proof -
  have le: "Min (set xs) \<le> 1" using assms by (metis List.finite_set Min_in set_empty)
  have "Min (insert 1 (set xs)) = min 1 (Min (set xs))"
    using assms(1) by (intro Min_insert) simp_all
  also have "\<dots> = Min (set xs)" using le by (rule min_absorb2)
  finally show ?thesis .
qed

lemma Max_insert_minus_one:
  assumes "xs \<noteq> []" "\<forall>x \<in> set xs. (-1::real) \<le> x"
  shows "Max (insert (-1) (set xs)) = Max (set xs)"
proof -
  have le: "-1 \<le> Max (set xs)" using assms by (metis List.finite_set Max_in set_empty)
  have "Max (insert (-1) (set xs)) = max (-1) (Max (set xs))"
    using assms(1) by (intro Max_insert) simp_all
  also have "\<dots> = Max (set xs)" using le by (rule max_absorb2)
  finally show ?thesis .
qed

lemma drawColumns_column:
  assumes "k < width"
  shows "drawColumns data step amp width 0 ! (2 * k) =
           (if k = 0
            then moveTo (real k) ((1 + Min (insert 1 (set (map ((!) data)
                   [k * step ..< min ((k + 1) * step) (length data)])))) * amp)
            else lineTo (real k) ((1 + Min (insert 1 (set (map ((!) data)
                   [k * step ..< min ((k + 1) * step) (length data)])))) * amp))"
    and "drawColumns data step amp width 0 ! (2 * k + 1) =
           lineTo (real k) ((1 + Max (insert (-1) (set (map ((!) data)
                   [k * step ..< min ((k + 1) * step) (length data)])))) * amp)"
proof -
  have fs: "fst (scanColumn data step k 0 1 (-1)) =
              Min (insert 1 (set (map ((!) data) [k * step ..< min ((k + 1) * step) (length data)])))"
    "snd (scanColumn data step k 0 1 (-1)) =
              Max (insert (-1) (set (map ((!) data) [k * step ..< min ((k + 1) * step) (length data)])))"
    by (simp_all only: scanColumn_Min_Max fst_conv snd_conv)
  have z: "2 * (k - 0) = 2 * k" by simp
  note nth = drawColumns_nth [of 0 k width data step amp, OF le0 assms, unfolded z fs]
  from nth show "drawColumns data step amp width 0 ! (2 * k) =
           (if k = 0
            then moveTo (real k) ((1 + Min (insert 1 (set (map ((!) data)
                   [k * step ..< min ((k + 1) * step) (length data)])))) * amp)
            else lineTo (real k) ((1 + Min (insert 1 (set (map ((!) data)
                   [k * step ..< min ((k + 1) * step) (length data)])))) * amp))"
    by (rule conjunct1)
  from nth show "drawColumns data step amp width 0 ! (2 * k + 1) =
           lineTo (real k) ((1 + Max (insert (-1) (set (map ((!) data)
                   [k * step ..< min ((k + 1) * step) (length data)])))) * amp)"
    by (rule conjunct2)
qed

text \<open>
  C8 (amended). With \<open>N\<close> samples and width \<open>W\<close>, \<open>step = ceil(N / W)\<close>, and column \<open>i < W\<close>
  draws two points at \<open>x = i\<close>, at rows \<open>(1 + mn) * height / 2\<close> and \<open>(1 + mx) * height / 2\<close>,
  where \<open>mn\<close> is the minimum of 1.0 and the samples with index in
  \<open>[i * step, min ((i + 1) * step) N)\<close> and \<open>mx\<close> the maximum of -1.0 and those samples. For a
  non-empty column of samples in \<open>[-1, 1]\<close> these are the minimum and maximum of the samples.
  An empty tail column keeps 1.0 and -1.0 and is drawn from row \<open>height\<close> to row 0, a line of
  full height.
\<close>

theorem draw_column_min_max:
  fixes v :: view and b :: AudioBuffer and i :: nat
  defines "W \<equiv> nat (canvasWidth v)"
  defines "step \<equiv> nat \<lceil>real (length (channelData0 b)) / real (nat (canvasWidth v))\<rceil>"
  defines "seg \<equiv> map ((!) (channelData0 b))
                    [i * step ..< min ((i + 1) * step) (length (channelData0 b))]"
  defines "path \<equiv> the (draw v (Some b))"
  assumes "0 < containerWidth v" "i < W"
  shows "draw v (Some b) \<noteq> None \<and> length path = 2 * W \<and>
         path ! (2 * i) =
           (if i = 0 then moveTo (real i) ((1 + Min (insert 1 (set seg))) * (WAVEFORM_HEIGHT / 2))
            else lineTo (real i) ((1 + Min (insert 1 (set seg))) * (WAVEFORM_HEIGHT / 2))) \<and>
         path ! (2 * i + 1) =
           lineTo (real i) ((1 + Max (insert (-1) (set seg))) * (WAVEFORM_HEIGHT / 2)) \<and>
         (seg \<noteq> [] \<and> (\<forall>x \<in> set seg. -1 \<le> x \<and> x \<le> 1) \<longrightarrow>
            Min (insert 1 (set seg)) = Min (set seg) \<and>
            Max (insert (-1) (set seg)) = Max (set seg)) \<and>
         (seg = [] \<longrightarrow>
            path ! (2 * i) \<in> {moveTo (real i) WAVEFORM_HEIGHT, lineTo (real i) WAVEFORM_HEIGHT} \<and>
            path ! (2 * i + 1) = lineTo (real i) 0)"
proof -
  have p: "path = drawColumns (channelData0 b) step (WAVEFORM_HEIGHT / 2) W 0"
    using assms(5) by (simp add: path_def draw_def Let_def stepOf_def step_def W_def)
  have d: "draw v (Some b) \<noteq> None" using assms(5) by (simp add: draw_def Let_def)
  note n = drawColumns_column [OF assms(6), of "channelData0 b" step "WAVEFORM_HEIGHT / 2",
      folded seg_def p]
  have l: "length path = 2 * W" by (simp add: p drawColumns_length)
  have e: "seg = [] \<longrightarrow>
            path ! (2 * i) \<in> {moveTo (real i) WAVEFORM_HEIGHT, lineTo (real i) WAVEFORM_HEIGHT} \<and>
            path ! (2 * i + 1) = lineTo (real i) 0"
    unfolding n by simp
  have r: "seg \<noteq> [] \<and> (\<forall>x \<in> set seg. -1 \<le> x \<and> x \<le> 1) \<longrightarrow>
            Min (insert 1 (set seg)) = Min (set seg) \<and>
            Max (insert (-1) (set seg)) = Max (set seg)"
    using Min_insert_one [of seg] Max_insert_minus_one [of seg] by blast
  from d l n e r show ?thesis by blast
qed

theorem draw_column_min_max_witness:
  "0 < containerWidth \<lparr>containerRef = None, containerWidth = 2, zoomLevel = 2\<rparr> \<and>
   (0::nat) < nat (canvasWidth \<lparr>containerRef = None, containerWidth = 2, zoomLevel = 2\<rparr>) \<and>
   (3::nat) < nat (canvasWidth \<lparr>containerRef = None, containerWidth = 2, zoomLevel = 2\<rparr>) \<and>
   [1 / 2, - 1 / 2 :: real] \<noteq> [] \<and>
   (- 1 :: real) \<le> 1 / 2 \<and> (1 / 2 :: real) \<le> 1 \<and> (- 1 :: real) \<le> - 1 / 2 \<and> (- 1 / 2 :: real) \<le> 1 \<and>
   Min (insert 1 (set [1 / 2, - 1 / 2 :: real])) = Min (set [1 / 2, - 1 / 2]) \<and>
   the (draw \<lparr>containerRef = None, containerWidth = 2, zoomLevel = 2\<rparr>
     (Some \<lparr>bufferDuration = 1, channelData0 = [1 / 2, - 1 / 2, 1 / 4, - 1 / 4, 0]\<rparr>)) ! (2 * 0)
     = moveTo 0 32 \<and>
   the (draw \<lparr>containerRef = None, containerWidth = 2, zoomLevel = 2\<rparr>
     (Some \<lparr>bufferDuration = 1, channelData0 = [1 / 2, - 1 / 2, 1 / 4, - 1 / 4, 0]\<rparr>)) ! (2 * 3 + 1)
     = lineTo 3 0"
proof -
  let ?v = "\<lparr>containerRef = None, containerWidth = 2, zoomLevel = 2\<rparr>"
  let ?b = "\<lparr>bufferDuration = 1, channelData0 = [1 / 2, - 1 / 2, 1 / 4, - 1 / 4, 0]\<rparr>"
  have h: "0 < containerWidth ?v" "(0::nat) < nat (canvasWidth ?v)" "(3::nat) < nat (canvasWidth ?v)"
    by (simp_all add: canvasWidth_def)
  have st: "nat \<lceil>real (length (channelData0 ?b)) / real (nat (canvasWidth ?v))\<rceil> = 2"
    by (simp add: canvasWidth_def)
  have seg0: "map ((!) (channelData0 ?b)) [0 * 2 ..< min ((0 + 1) * 2) (length (channelData0 ?b))]
     = [1 / 2, - 1 / 2]"
    by (simp add: upt_conv_Cons)
  have seg3: "map ((!) (channelData0 ?b)) [3 * 2 ..< min ((3 + 1) * 2) (length (channelData0 ?b))] = []"
    by simp
  have r: "[1 / 2, - 1 / 2 :: real] \<noteq> []" "\<forall>x \<in> set [1 / 2, - 1 / 2 :: real]. - 1 \<le> x \<and> x \<le> 1"
    by simp_all
  note c0 = draw_column_min_max [OF h(1) h(2), of ?b, unfolded st seg0]
  note c3 = draw_column_min_max [OF h(1) h(3), of ?b, unfolded st seg3]
  have m: "Min (insert 1 (set [1 / 2, - 1 / 2 :: real])) = Min (set [1 / 2, - 1 / 2])"
    using c0 r by blast
  have "the (draw ?v (Some ?b)) ! (2 * 0) =
      moveTo (real 0) ((1 + Min (insert 1 (set [1 / 2, - 1 / 2]))) * (WAVEFORM_HEIGHT / 2))"
    using c0 by simp
  then have p0: "the (draw ?v (Some ?b)) ! (2 * 0) = moveTo 0 32"
    by (simp add: WAVEFORM_HEIGHT_def)
  have "the (draw ?v (Some ?b)) ! (2 * 3 + 1) = lineTo (real 3) 0"
    using c3 by blast
  then have p3: "the (draw ?v (Some ?b)) ! (2 * 3 + 1) = lineTo 3 0"
    by simp
  have bounds: "(- 1 :: real) \<le> 1 / 2" "(1 / 2 :: real) \<le> 1" "(- 1 :: real) \<le> - 1 / 2"
    "(- 1 / 2 :: real) \<le> 1"
    by simp_all
  from h r(1) bounds m p0 p3 show ?thesis by (intro conjI)
qed

text \<open>
  Five samples on a canvas four pixels wide: \<open>step\<close> is 2, the last column has no samples
  and is drawn from row 128 to row 0; the center row is 64.
\<close>

theorem empty_column_counterexample:
  "draw \<lparr>containerRef = None, containerWidth = 4, zoomLevel = 1\<rparr>
     (Some \<lparr>bufferDuration = 1, channelData0 = [1/2, -1/2, 1/4, -1/4, 0]\<rparr>)
   = Some [moveTo 0 32, lineTo 0 96, lineTo 1 48, lineTo 1 80, lineTo 2 64, lineTo 2 64,
           lineTo 3 128, lineTo 3 0]"
  by (simp add: draw_def canvasWidth_def stepOf_def WAVEFORM_HEIGHT_def Let_def
        drawColumns.simps scanColumn.simps)

end
